theory Spec2Isabelle
  imports Complex_Main
begin

section \<open>Data model (models.py)\<close>

text \<open>
  Every model class of \<^verbatim>\<open>models.py\<close> is a record whose fields are the columns the
  request handlers of \<^verbatim>\<open>app.py\<close> read or write. Column names repeat across the
  classes (\<^verbatim>\<open>id\<close>, \<^verbatim>\<open>task_id\<close>, \<^verbatim>\<open>status\<close>, ...), so every field carries the initial of
  its class. Integer columns are \<open>int\<close> (Python integers), a nullable column is an
  \<open>option\<close>, a \<^verbatim>\<open>String\<close> column is a \<open>string\<close>. A \<^verbatim>\<open>Float\<close> column is a \<open>real\<close>: a
  finite double is the real number it denotes; infinities and \<^verbatim>\<open>nan\<close> are outside the
  model. \<^verbatim>\<open>Rating.score\<close> is declared \<^verbatim>\<open>Integer\<close>, but SQLite keeps a number with a
  fractional part that is stored in such a column as it is, so the field is a \<open>real\<close>.
  The timestamp columns (\<^verbatim>\<open>created_at\<close>, \<^verbatim>\<open>updated_at\<close>) depend on the wall clock and
  are left out.
\<close>

record user =
  u_id :: int
  u_latitude :: "real option"
  u_longitude :: "real option"

record task =
  t_id :: int
  t_title :: string
  t_description :: string
  t_category :: string
  t_reward :: "string option"
  t_status :: string
  t_latitude :: real
  t_longitude :: real
  t_poster_id :: int
  t_helper_id :: "int option"
  t_charges :: "real option"
  t_hours :: "real option"
  t_image_url :: "string option"

record quote =
  q_id :: int
  q_task_id :: int
  q_helper_id :: int
  q_charges :: real
  q_hours :: real
  q_mobile :: string
  q_status :: string

record rating =
  r_id :: int
  r_task_id :: int
  r_rater_id :: int
  r_ratee_id :: int
  r_score :: real
  r_comment :: "string option"

record notification =
  n_id :: int
  n_user_id :: int
  n_message :: string
  n_is_read :: bool

text \<open>
  The database is one list of rows per table, in insertion (rowid) order: a query
  without \<^verbatim>\<open>order_by\<close> reads the rows in this order, and \<^verbatim>\<open>.first()\<close> is the first
  row that matches.
\<close>

record db =
  users :: "user list"
  tasks :: "task list"
  quotes :: "quote list"
  ratings :: "rating list"
  notifications :: "notification list"

text \<open>
  An \<^verbatim>\<open>INTEGER PRIMARY KEY\<close> of SQLite gets the largest id in the table plus one, and
  1 in an empty table.
\<close>

definition next_id :: "int list \<Rightarrow> int" where
  "next_id ids = foldr max ids 0 + 1"

section \<open>Values of a request\<close>

text \<open>
  The body of a request is a JSON object, and a field of it is any JSON value.
  \<^verbatim>\<open>data.get(key)\<close> is \<^verbatim>\<open>None\<close> for a key that is missing and for one that is
  \<^verbatim>\<open>null\<close>: both are \<open>JNull\<close>. Python reads a JSON number without fraction or
  exponent as an \<^verbatim>\<open>int\<close> of any size (\<open>JInt\<close>) and every other number as a
  \<^verbatim>\<open>float\<close> (\<open>JFloat\<close>).
\<close>

datatype json =
    JNull
  | JBool bool
  | JInt int
  | JFloat real
  | JString string
  | JArray "json list"
  | JObject "(string \<times> json) list"

text \<open>
  The truth value of a Python object, as \<^verbatim>\<open>not v\<close> and \<^verbatim>\<open>all([...])\<close> test it:
  \<^verbatim>\<open>None\<close>, \<^verbatim>\<open>False\<close>, zero and the empty string, list and dict are false.
\<close>

fun truthy :: "json \<Rightarrow> bool" where
  "truthy JNull = False"
| "truthy (JBool b) = b"
| "truthy (JInt n) = (n \<noteq> 0)"
| "truthy (JFloat x) = (x \<noteq> 0)"
| "truthy (JString str) = (str \<noteq> [])"
| "truthy (JArray vs) = (vs \<noteq> [])"
| "truthy (JObject kvs) = (kvs \<noteq> [])"

text \<open>
  The number that a value is in a comparison with a number (\<^verbatim>\<open>1 <= score\<close>,
  \<^verbatim>\<open>ratee_id == current_user_id\<close>): Python compares \<^verbatim>\<open>int\<close>, \<^verbatim>\<open>float\<close> and \<^verbatim>\<open>bool\<close>
  (\<^verbatim>\<open>True\<close> is 1) by their exact values. An order comparison of a string, list, dict
  or \<^verbatim>\<open>None\<close> with a number raises \<^verbatim>\<open>TypeError\<close> (\<open>None\<close> here); an equality with one
  is false.
\<close>

fun py_num :: "json \<Rightarrow> real option" where
  "py_num (JInt n) = Some (of_int n)"
| "py_num (JFloat x) = Some x"
| "py_num (JBool b) = Some (if b then 1 else 0)"
| "py_num JNull = None"
| "py_num (JString str) = None"
| "py_num (JArray vs) = None"
| "py_num (JObject kvs) = None"

definition py_eq_int :: "json \<Rightarrow> int \<Rightarrow> bool" where
  "py_eq_int v i = (py_num v = Some (of_int i))"

text \<open>
  SQLite stores integers in 64 bits. Binding a Python \<^verbatim>\<open>int\<close> outside this range as
  a parameter of a statement raises \<^verbatim>\<open>OverflowError\<close>. The ids that the database
  holds are within the range; an id taken from the URL (\<^verbatim>\<open><int:task_id>\<close> accepts any
  number of digits) or from the body need not be. \<^verbatim>\<open>current_user_id\<close> is the id in the
  token that \<^verbatim>\<open>login\<close> issued, the id of a stored user.
\<close>

definition sqlite_int :: "int \<Rightarrow> bool" where
  "sqlite_int i = (- (2 ^ 63) \<le> i \<and> i < 2 ^ 63)"

text \<open>
  Two conversions are made outside the code of the repository and are parameters
  here: \<open>float_of_text\<close> is \<^verbatim>\<open>float\<close> of Python on a string (\<open>None\<close> when it raises
  \<^verbatim>\<open>ValueError\<close>), and \<open>text_of_number\<close> is the text that SQLite stores when a number
  is written to a column of text.
\<close>

record platform =
  float_of_text :: "string \<Rightarrow> real option"
  text_of_number :: "json \<Rightarrow> string"

text \<open>
  \<^verbatim>\<open>float(n)\<close> of an \<^verbatim>\<open>int\<close> is the double nearest to \<open>n\<close>, a tie going to the even
  mantissa; \<^verbatim>\<open>OverflowError\<close> (\<open>None\<close>) when that would be \<open>2 ^ 1024\<close> or more. An
  integer of at most 53 bits is its own double. For a longer one the bits beyond the
  first 53 are rounded away.
\<close>

fun bit_length :: "nat \<Rightarrow> nat" where
  "bit_length n = (if n = 0 then 0 else Suc (bit_length (n div 2)))"

definition round_to_double :: "nat \<Rightarrow> nat" where
  "round_to_double n =
     (let k = bit_length n in
      if k \<le> 53 then n
      else
        let e = k - 53;
            q = n div 2 ^ e;
            r = n mod 2 ^ e;
            half = 2 ^ (e - 1)
        in (if half < r \<or> (r = half \<and> odd q) then q + 1 else q) * 2 ^ e)"

definition float_of_int :: "int \<Rightarrow> real option" where
  "float_of_int n =
     (let m = round_to_double (nat \<bar>n\<bar>) in
      if 2 ^ 1024 \<le> m then None
      else Some (if n < 0 then - real m else real m))"

text \<open>
  \<^verbatim>\<open>float(v)\<close>, \<open>None\<close> when it raises: a \<^verbatim>\<open>float\<close> is returned as it is, \<^verbatim>\<open>True\<close> and
  \<^verbatim>\<open>False\<close> are 1 and 0, a string is parsed, and \<^verbatim>\<open>None\<close>, a list and a dict raise
  \<^verbatim>\<open>TypeError\<close>.
\<close>

fun py_float :: "platform \<Rightarrow> json \<Rightarrow> real option" where
  "py_float pf (JInt n) = float_of_int n"
| "py_float pf (JFloat x) = Some x"
| "py_float pf (JBool b) = Some (if b then 1 else 0)"
| "py_float pf (JString str) = float_of_text pf str"
| "py_float pf JNull = None"
| "py_float pf (JArray vs) = None"
| "py_float pf (JObject kvs) = None"

text \<open>
  Binding a value to a \<^verbatim>\<open>String\<close> or \<^verbatim>\<open>Text\<close> column, \<open>None\<close> when the driver raises:
  a string is stored as it is and \<^verbatim>\<open>None\<close> as \<^verbatim>\<open>NULL\<close>; a number is stored as its
  text (an \<^verbatim>\<open>int\<close> beyond 64 bits raises \<^verbatim>\<open>OverflowError\<close>); the driver refuses a
  list and a dict.
\<close>

fun py_text :: "platform \<Rightarrow> json \<Rightarrow> string option option" where
  "py_text pf JNull = Some None"
| "py_text pf (JString str) = Some (Some str)"
| "py_text pf (JInt n) = (if sqlite_int n then Some (Some (text_of_number pf (JInt n))) else None)"
| "py_text pf (JFloat x) = Some (Some (text_of_number pf (JFloat x)))"
| "py_text pf (JBool b) = Some (Some (text_of_number pf (JBool b)))"
| "py_text pf (JArray vs) = None"
| "py_text pf (JObject kvs) = None"

section \<open>Responses\<close>

text \<open>
  A handler answers \<^verbatim>\<open>jsonify({"error": message}), code\<close> on failure. Each constructor
  stands for one such message of \<^verbatim>\<open>app.py\<close>; \<open>status_code\<close> is the HTTP code returned
  with it. \<open>InternalServerError\<close> is an exception that no handler catches (Flask
  answers 500 and the session of the request is discarded).
\<close>

datatype error =
    QuoteFieldsRequired          \<comment> \<open>Charges, hours, and mobile are required\<close>
  | TaskNotFoundOrNotOpen        \<comment> \<open>Task not found or no longer open\<close>
  | QuoteNotFound                \<comment> \<open>Quote not found\<close>
  | OnlyPosterCanAccept          \<comment> \<open>Only the task poster can accept quotes\<close>
  | TaskNotFound                 \<comment> \<open>Task not found\<close>
  | NotAuthorizedToComplete      \<comment> \<open>You're not authorized to complete this task\<close>
  | RatingFieldsRequired         \<comment> \<open>task_id, ratee_id, and score are required\<close>
  | ScoreOutOfRange              \<comment> \<open>Score must be between 1 and 5\<close>
  | TaskNotFoundOrNotCompleted   \<comment> \<open>Task not found or not completed\<close>
  | NotPartOfTask                \<comment> \<open>You were not part of this task\<close>
  | OnlyRateOtherParticipant     \<comment> \<open>You can only rate the other participant\<close>
  | AlreadyRated                 \<comment> \<open>You already rated this user for this task\<close>
  | TaskNotFoundOrNotOwned       \<comment> \<open>Task not found or you don't own it\<close>
  | OnlyOpenTasksDeleted         \<comment> \<open>Only open tasks can be deleted\<close>
  | FailedToDeleteTask           \<comment> \<open>Failed to delete task\<close>
  | InternalServerError

fun status_code :: "error \<Rightarrow> nat" where
  "status_code QuoteFieldsRequired = 400"
| "status_code TaskNotFoundOrNotOpen = 404"
| "status_code QuoteNotFound = 404"
| "status_code OnlyPosterCanAccept = 403"
| "status_code TaskNotFound = 404"
| "status_code NotAuthorizedToComplete = 403"
| "status_code RatingFieldsRequired = 400"
| "status_code ScoreOutOfRange = 400"
| "status_code TaskNotFoundOrNotCompleted = 400"
| "status_code NotPartOfTask = 403"
| "status_code OnlyRateOtherParticipant = 400"
| "status_code AlreadyRated = 400"
| "status_code TaskNotFoundOrNotOwned = 404"
| "status_code OnlyOpenTasksDeleted = 400"
| "status_code FailedToDeleteTask = 500"
| "status_code InternalServerError = 500"

section \<open>Quote negotiation (app.py)\<close>

text \<open>
  Every handler takes the acting user (\<^verbatim>\<open>current_user_id\<close>, decoded from the token by
  \<^verbatim>\<open>token_required\<close>), the fields of the request and the database, and returns its
  answer with the database as the request leaves it. A handler's first argument says
  whether its \<^verbatim>\<open>db.session.commit()\<close> goes through: when the commit raises, nothing
  of the request is stored and the exception leaves the handler.

  \<^verbatim>\<open>submit_quote\<close>: \<^verbatim>\<open>charges\<close> and \<^verbatim>\<open>hours\<close> are tested for \<^verbatim>\<open>None\<close> and \<^verbatim>\<open>mobile\<close> for
  its truth value; then the open task is looked up, with \<^verbatim>\<open>task_id\<close> bound to the
  query; then \<^verbatim>\<open>float(charges)\<close> and \<^verbatim>\<open>float(hours)\<close> are evaluated, and the commit
  binds \<^verbatim>\<open>mobile\<close> to its column. An exception in any of these leaves the handler,
  and nothing is stored. The unit of work flushes the insert of the new quote before
  the delete of the superseded one, so the new id is chosen with the old row still in
  the table.
\<close>

definition submit_quote ::
  "platform \<Rightarrow> bool \<Rightarrow> int \<Rightarrow> int \<Rightarrow> json \<Rightarrow> json \<Rightarrow> json \<Rightarrow> db \<Rightarrow> (error + quote) \<times> db" where
  "submit_quote pf commit_ok current_user_id task_id charges hours mobile s =
     (if charges = JNull \<or> hours = JNull \<or> \<not> truthy mobile
      then (Inl QuoteFieldsRequired, s)
      else if \<not> sqlite_int task_id then (Inl InternalServerError, s)
      else
        (case find (\<lambda>t. t_id t = task_id \<and> t_status t = ''open'') (tasks s) of
           None \<Rightarrow> (Inl TaskNotFoundOrNotOpen, s)
         | Some t \<Rightarrow>
             let existing = find (\<lambda>q. q_task_id q = task_id \<and> q_helper_id q = current_user_id)
                              (quotes s);
                 kept = (case existing of
                           None \<Rightarrow> quotes s
                         | Some e \<Rightarrow> filter (\<lambda>q. q_id q \<noteq> q_id e) (quotes s))
             in (case (py_float pf charges, py_float pf hours, py_text pf mobile) of
                   (Some c, Some h, Some (Some m)) \<Rightarrow>
                     let quote = \<lparr> q_id = next_id (map q_id (quotes s)),
                                   q_task_id = task_id,
                                   q_helper_id = current_user_id,
                                   q_charges = c,
                                   q_hours = h,
                                   q_mobile = m,
                                   q_status = ''pending'' \<rparr>
                     in if commit_ok then (Inr quote, s\<lparr>quotes := kept @ [quote]\<rparr>)
                        else (Inl InternalServerError, s)
                 | _ \<Rightarrow> (Inl InternalServerError, s))))"

text \<open>
  \<^verbatim>\<open>create_notification\<close> adds one unread row for the user; the messages of
  \<^verbatim>\<open>accept_quote\<close> quote the task's title between apostrophes (character 39).
\<close>

definition create_notification :: "int \<Rightarrow> string \<Rightarrow> db \<Rightarrow> db" where
  "create_notification user_id message s =
     s\<lparr>notifications := notifications s @
          [\<lparr> n_id = next_id (map n_id (notifications s)),
             n_user_id = user_id,
             n_message = message,
             n_is_read = False \<rparr>]\<rparr>"

definition declined_message :: "task \<Rightarrow> string" where
  "declined_message t = ''Your quotation for '' @ [CHR 0x27] @ t_title t @ [CHR 0x27] @ '' was declined.''"

definition assigned_message :: "task \<Rightarrow> string" where
  "assigned_message t = ''Your work for '' @ [CHR 0x27] @ t_title t @ [CHR 0x27] @ '' was assigned!''"

text \<open>
  An attribute assignment on a loaded row changes the row with that primary key.
\<close>

definition update_quote :: "int \<Rightarrow> (quote \<Rightarrow> quote) \<Rightarrow> db \<Rightarrow> db" where
  "update_quote i f s = s\<lparr>quotes := map (\<lambda>q. if q_id q = i then f q else q) (quotes s)\<rparr>"

definition update_task :: "int \<Rightarrow> (task \<Rightarrow> task) \<Rightarrow> db \<Rightarrow> db" where
  "update_task i f s = s\<lparr>tasks := map (\<lambda>t. if t_id t = i then f t else t) (tasks s)\<rparr>"

text \<open>
  The loop of \<^verbatim>\<open>accept_quote\<close> over \<^verbatim>\<open>other_quotes\<close>: each quote is declined and its
  helper notified, in the order of the query's rows.
\<close>

primrec decline_others :: "task \<Rightarrow> quote list \<Rightarrow> db \<Rightarrow> db" where
  "decline_others t [] s = s"
| "decline_others t (q # qs) s =
     decline_others t qs
       (create_notification (q_helper_id q) (declined_message t)
          (update_quote (q_id q) (\<lambda>x. x\<lparr>q_status := ''declined''\<rparr>) s))"

text \<open>
  \<^verbatim>\<open>accept_quote\<close> commits twice: \<open>commit1_ok\<close> is the commit after the task's update,
  \<open>commit2_ok\<close> the one after the notification of the accepted helper. A commit that
  raises loses what the session holds since the commit before it; what an earlier commit
  stored stays. \<^verbatim>\<open>quote.task\<close> is the row the foreign key names; were there none, the
  read of \<^verbatim>\<open>task.poster_id\<close> would raise. The lookup of the quote binds \<^verbatim>\<open>quote_id\<close>, the
  number in the URL, and raises for one beyond 64 bits; a stored quote's id is within
  the range, so this happens only where no row has the id.
\<close>

definition accept_quote ::
  "bool \<Rightarrow> bool \<Rightarrow> int \<Rightarrow> int \<Rightarrow> db \<Rightarrow> (error + task \<times> quote) \<times> db" where
  "accept_quote commit1_ok commit2_ok current_user_id quote_id s =
     (case find (\<lambda>q. q_id q = quote_id) (quotes s) of
        None \<Rightarrow> if sqlite_int quote_id then (Inl QuoteNotFound, s)
                else (Inl InternalServerError, s)
      | Some quote \<Rightarrow>
          (case find (\<lambda>t. t_id t = q_task_id quote) (tasks s) of
             None \<Rightarrow> (Inl InternalServerError, s)
           | Some t \<Rightarrow>
               if t_poster_id t \<noteq> current_user_id then (Inl OnlyPosterCanAccept, s)
               else
                 let other_quotes =
                       filter (\<lambda>q. q_task_id q = t_id t \<and> q_id q \<noteq> quote_id) (quotes s);
                     s1 = decline_others t other_quotes s;
                     quote' = quote\<lparr>q_status := ''accepted''\<rparr>;
                     s2 = update_quote quote_id (\<lambda>x. x\<lparr>q_status := ''accepted''\<rparr>) s1;
                     task_update = (\<lambda>x. x\<lparr> t_helper_id := Some (q_helper_id quote),
                                             t_charges := Some (q_charges quote),
                                             t_hours := Some (q_hours quote),
                                             t_status := ''accepted'' \<rparr>);
                     s3 = update_task (t_id t) task_update s2
                 in if \<not> commit1_ok then (Inl InternalServerError, s)
                    else
                      let s4 = create_notification (q_helper_id quote) (assigned_message t) s3
                      in if \<not> commit2_ok then (Inl InternalServerError, s3)
                         else (Inr (task_update t, quote'), s4)))"


section \<open>Task store (app.py)\<close>

text \<open>
  \<^verbatim>\<open>complete_task\<close>: the lookup binds \<^verbatim>\<open>task_id\<close>, the number in the URL, to the query.
  No handler catches the \<^verbatim>\<open>OverflowError\<close> of a number beyond 64 bits.
\<close>

definition complete_task :: "bool \<Rightarrow> int \<Rightarrow> int \<Rightarrow> db \<Rightarrow> (error + task) \<times> db" where
  "complete_task commit_ok current_user_id task_id s =
     (if \<not> sqlite_int task_id then (Inl InternalServerError, s)
      else
        (case find (\<lambda>t. t_id t = task_id) (tasks s) of
           None \<Rightarrow> (Inl TaskNotFound, s)
         | Some t \<Rightarrow>
             if Some current_user_id \<notin> set [t_helper_id t, Some (t_poster_id t)]
             then (Inl NotAuthorizedToComplete, s)
             else if commit_ok
             then (Inr (t\<lparr>t_status := ''completed''\<rparr>),
                   update_task task_id (\<lambda>x. x\<lparr>t_status := ''completed''\<rparr>) s)
             else (Inl InternalServerError, s)))"

text \<open>
  \<^verbatim>\<open>delete_task\<close> runs inside \<^verbatim>\<open>try\<close>, the lookup of the task included: an exception
  of the lookup (\<^verbatim>\<open>task_id\<close> beyond 64 bits) is caught like every other, the session
  is rolled back and the answer is 500. \<open>storage_ok\<close> says that none of the two bulk
  deletes, the delete of the task and the commit raises.
\<close>

definition delete_task :: "bool \<Rightarrow> int \<Rightarrow> int \<Rightarrow> db \<Rightarrow> (error + unit) \<times> db" where
  "delete_task storage_ok current_user_id task_id s =
     (if \<not> sqlite_int task_id then (Inl FailedToDeleteTask, s)
      else
        (case find (\<lambda>t. t_id t = task_id \<and> t_poster_id t = current_user_id) (tasks s) of
           None \<Rightarrow> (Inl TaskNotFoundOrNotOwned, s)
         | Some t \<Rightarrow>
             if t_status t \<noteq> ''open'' then (Inl OnlyOpenTasksDeleted, s)
             else if storage_ok
             then (Inr (),
                   s\<lparr> quotes := filter (\<lambda>q. q_task_id q \<noteq> task_id) (quotes s),
                      ratings := filter (\<lambda>r. r_task_id r \<noteq> task_id) (ratings s),
                      tasks := filter (\<lambda>x. t_id x \<noteq> t_id t) (tasks s) \<rparr>)
             else (Inl FailedToDeleteTask, s)))"

section \<open>Rating ledger (app.py)\<close>

text \<open>
  \<^verbatim>\<open>create_rating\<close>: \<^verbatim>\<open>all([task_id, ratee_id, score])\<close> asks for the truth value of
  each field, which is false for a missing field and for 0. \<^verbatim>\<open>1 <= score <= 5\<close>
  compares numbers and raises \<^verbatim>\<open>TypeError\<close> for a score that is none. The lookup
  \<^verbatim>\<open>Task.query.get(task_id)\<close> is modelled for an integer \<^verbatim>\<open>task_id\<close>, which it binds
  to its query; what it finds for a key of another type depends on how SQLAlchemy
  and SQLite read the value, which this development does not describe: the handler
  has no answer here (\<open>None\<close>) on such a request, and nothing is stated about it.
  The tests of \<^verbatim>\<open>current_user_id\<close> and \<^verbatim>\<open>ratee_id\<close> against the poster and the helper
  are equalities of Python; the helper may be \<^verbatim>\<open>None\<close>, which equals no id. The query
  for an existing rating and the insert bind \<^verbatim>\<open>ratee_id\<close>, modelled for an integer in
  the same way. \<^verbatim>\<open>comment\<close> is \<open>None\<close> when its key is missing
  (\<^verbatim>\<open>data.get('comment', '')\<close> is the empty string then), else the value sent.
\<close>

definition is_participant :: "json \<Rightarrow> task \<Rightarrow> bool" where
  "is_participant v t =
     (py_eq_int v (t_poster_id t)
      \<or> (case t_helper_id t of None \<Rightarrow> False | Some h \<Rightarrow> py_eq_int v h))"

definition create_rating ::
  "platform \<Rightarrow> bool \<Rightarrow> int \<Rightarrow> json \<Rightarrow> json \<Rightarrow> json \<Rightarrow> json option \<Rightarrow> db
     \<Rightarrow> ((error + rating) \<times> db) option" where
  "create_rating pf commit_ok current_user_id task_id ratee_id score comment s =
     (if \<not> (truthy task_id \<and> truthy ratee_id \<and> truthy score)
      then Some (Inl RatingFieldsRequired, s)
      else
        (case py_num score of
           None \<Rightarrow> Some (Inl InternalServerError, s)
         | Some sc \<Rightarrow>
             if \<not> (1 \<le> sc \<and> sc \<le> 5) then Some (Inl ScoreOutOfRange, s)
             else
               (case task_id of
                  JInt tid \<Rightarrow>
                    if \<not> sqlite_int tid then Some (Inl InternalServerError, s)
                    else
                      (case find (\<lambda>t. t_id t = tid) (tasks s) of
                         None \<Rightarrow> Some (Inl TaskNotFoundOrNotCompleted, s)
                       | Some t \<Rightarrow>
                           if t_status t \<noteq> ''completed''
                           then Some (Inl TaskNotFoundOrNotCompleted, s)
                           else if Some current_user_id \<notin> set [Some (t_poster_id t), t_helper_id t]
                           then Some (Inl NotPartOfTask, s)
                           else if \<not> is_participant ratee_id t \<or> py_eq_int ratee_id current_user_id
                           then Some (Inl OnlyRateOtherParticipant, s)
                           else
                             (case ratee_id of
                                JInt ratee \<Rightarrow>
                                  (case find (\<lambda>r. r_task_id r = tid \<and> r_rater_id r = current_user_id
                                                     \<and> r_ratee_id r = ratee) (ratings s) of
                                     Some existing \<Rightarrow> Some (Inl AlreadyRated, s)
                                   | None \<Rightarrow>
                                       (case py_text pf (case comment of None \<Rightarrow> JString [] | Some c \<Rightarrow> c) of
                                          None \<Rightarrow> Some (Inl InternalServerError, s)
                                        | Some text \<Rightarrow>
                                            let new_rating =
                                                  \<lparr> r_id = next_id (map r_id (ratings s)),
                                                    r_task_id = tid,
                                                    r_rater_id = current_user_id,
                                                    r_ratee_id = ratee,
                                                    r_score = sc,
                                                    r_comment = text \<rparr>
                                            in if commit_ok
                                               then Some (Inr new_rating,
                                                          s\<lparr>ratings := ratings s @ [new_rating]\<rparr>)
                                               else Some (Inl InternalServerError, s)))
                              | _ \<Rightarrow> None))
                | _ \<Rightarrow> None)))"

section \<open>Invariants of the quote table\<close>


definition one_quote_per_pair :: "db \<Rightarrow> bool" where
  "one_quote_per_pair s = distinct (map (\<lambda>q. (q_task_id q, q_helper_id q)) (quotes s))"


section \<open>Example databases\<close>

text \<open>A platform whose \<^verbatim>\<open>float\<close> accepts no string; no example needs another.\<close>

definition ex_platform :: platform where
  "ex_platform = \<lparr> float_of_text = (\<lambda>str. None), text_of_number = (\<lambda>v. []) \<rparr>"

definition ex_task :: task where
  "ex_task = \<lparr> t_id = 1, t_title = ''Fix tap'', t_description = ''Kitchen tap leaks'',
               t_category = ''plumbing'', t_reward = Some [], t_status = ''open'',
               t_latitude = 0, t_longitude = 0, t_poster_id = 1, t_helper_id = None,
               t_charges = None, t_hours = None, t_image_url = None \<rparr>"

definition ex_users :: "user list" where
  "ex_users = [\<lparr> u_id = 1, u_latitude = Some 0, u_longitude = Some 0 \<rparr>,
               \<lparr> u_id = 2, u_latitude = None, u_longitude = None \<rparr>,
               \<lparr> u_id = 3, u_latitude = None, u_longitude = None \<rparr>]"

definition ex_db :: db where
  "ex_db = \<lparr> users = ex_users, tasks = [ex_task], quotes = [], ratings = [], notifications = [] \<rparr>"

definition ex_quote2 :: quote where
  "ex_quote2 = \<lparr> q_id = 1, q_task_id = 1, q_helper_id = 2, q_charges = 50, q_hours = 2,
                 q_mobile = ''555'', q_status = ''pending'' \<rparr>"

definition ex_quote3 :: quote where
  "ex_quote3 = \<lparr> q_id = 2, q_task_id = 1, q_helper_id = 3, q_charges = 40, q_hours = 3,
                 q_mobile = ''777'', q_status = ''pending'' \<rparr>"

definition ex_quote_negative :: quote where
  "ex_quote_negative = \<lparr> q_id = 1, q_task_id = 1, q_helper_id = 2, q_charges = - 5, q_hours = - 2,
                         q_mobile = ''555'', q_status = ''pending'' \<rparr>"

definition ex_db_quoted :: db where
  "ex_db_quoted = ex_db\<lparr>quotes := [ex_quote2, ex_quote3]\<rparr>"

definition ex_task_accepted :: task where
  "ex_task_accepted = ex_task\<lparr> t_helper_id := Some 2, t_charges := Some 50, t_hours := Some 2,
                                t_status := ''accepted'' \<rparr>"

definition ex_declined_notification :: notification where
  "ex_declined_notification =
     \<lparr> n_id = 1, n_user_id = 3, n_message = declined_message ex_task, n_is_read = False \<rparr>"

definition ex_assigned_notification :: notification where
  "ex_assigned_notification =
     \<lparr> n_id = 2, n_user_id = 2, n_message = assigned_message ex_task, n_is_read = False \<rparr>"

text \<open>After the first commit of \<^verbatim>\<open>accept_quote\<close> on quote 1, and after the second.\<close>

definition ex_db_first_commit :: db where
  "ex_db_first_commit =
     ex_db\<lparr> tasks := [ex_task_accepted],
            quotes := [ex_quote2\<lparr>q_status := ''accepted''\<rparr>, ex_quote3\<lparr>q_status := ''declined''\<rparr>],
            notifications := [ex_declined_notification] \<rparr>"

definition ex_db_accepted :: db where
  "ex_db_accepted =
     ex_db_first_commit\<lparr>notifications := [ex_declined_notification, ex_assigned_notification]\<rparr>"

definition ex_db_completed :: db where
  "ex_db_completed = ex_db_accepted\<lparr>tasks := [ex_task_accepted\<lparr>t_status := ''completed''\<rparr>]\<rparr>"





lemmas ex_defs =
  ex_task_def ex_users_def ex_db_def ex_quote2_def ex_quote3_def ex_quote_negative_def
  ex_db_quoted_def ex_task_accepted_def ex_declined_notification_def
  ex_assigned_notification_def ex_db_first_commit_def ex_db_accepted_def ex_db_completed_def


section \<open>Auxiliary facts\<close>

lemma foldr_max_ge: "x \<in> set ids \<Longrightarrow> x \<le> foldr max ids (0::int)"
  by (induction ids) auto

lemma next_id_fresh: "x \<in> set ids \<Longrightarrow> x < next_id ids"
  using foldr_max_ge [of x ids] by (simp add: next_id_def)

lemma next_id_notin: "next_id ids \<notin> set ids"
  using next_id_fresh [of "next_id ids" ids] by auto

lemma find_SomeD: "find P xs = Some x \<Longrightarrow> x \<in> set xs \<and> P x"
  by (induction xs) (auto split: if_splits)

lemma find_None_D: "find P xs = None \<Longrightarrow> x \<in> set xs \<Longrightarrow> \<not> P x"
  by (induction xs) (auto split: if_splits)

lemma find_conj: "find P xs = Some x \<Longrightarrow> Q x \<Longrightarrow> find (\<lambda>y. P y \<and> Q y) xs = Some x"
  by (induction xs) (auto split: if_splits)

lemma distinct_key_eq:
  "distinct (map k xs) \<Longrightarrow> x \<in> set xs \<Longrightarrow> y \<in> set xs \<Longrightarrow> k x = k y \<Longrightarrow> x = y"
  by (auto simp: distinct_map dest: inj_onD)

lemma filter_distinct_key:
  assumes "distinct (map k xs)" and "x \<in> set xs"
  shows "filter (\<lambda>y. k y = k x) xs = [x]"
  using assms
proof (induction xs)
  case Nil
  then show ?case by simp
next
  case (Cons a xs)
  show ?case
  proof (cases "a = x")
    case True
    have "k x \<notin> k ` set xs" using Cons.prems(1) True by simp
    then have "\<forall>y\<in>set xs. k y \<noteq> k x" by (metis imageI)
    then have "filter (\<lambda>y. k y = k x) xs = []" by (simp add: filter_empty_conv)
    then show ?thesis using True by simp
  next
    case False
    then have xin: "x \<in> set xs" using Cons.prems(2) by simp
    then have "k a \<noteq> k x" using Cons.prems(1) by auto
    moreover have "filter (\<lambda>y. k y = k x) xs = [x]"
      using Cons.IH Cons.prems(1) xin by simp
    ultimately show ?thesis by simp
  qed
qed

subsection \<open>The loop of accept_quote\<close>

lemma decline_others_tasks [simp]: "tasks (decline_others t qs s) = tasks s"
  by (induction qs arbitrary: s) (simp_all add: create_notification_def update_quote_def)

lemma decline_others_users [simp]: "users (decline_others t qs s) = users s"
  by (induction qs arbitrary: s) (simp_all add: create_notification_def update_quote_def)

lemma decline_others_ratings [simp]: "ratings (decline_others t qs s) = ratings s"
  by (induction qs arbitrary: s) (simp_all add: create_notification_def update_quote_def)

lemma decline_others_quotes:
  "quotes (decline_others t qs s) =
     map (\<lambda>x. if q_id x \<in> q_id ` set qs then x\<lparr>q_status := ''declined''\<rparr> else x) (quotes s)"
proof (induction qs arbitrary: s)
  case Nil
  then show ?case by simp
next
  case (Cons q qs)
  show ?case
    by (simp add: Cons.IH create_notification_def update_quote_def comp_def cong: if_cong)
qed

lemma decline_others_notifications:
  "\<exists>new. notifications (decline_others t qs s) = notifications s @ new
     \<and> map n_user_id new = map q_helper_id qs
     \<and> map n_message new = map (\<lambda>_. declined_message t) qs
     \<and> map n_is_read new = map (\<lambda>_. False) qs"
proof (induction qs arbitrary: s)
  case Nil
  then show ?case by simp
next
  case (Cons q qs)
  let ?s1 = "create_notification (q_helper_id q) (declined_message t)
          (update_quote (q_id q) (\<lambda>x. x\<lparr>q_status := ''declined''\<rparr>) s)"
  obtain new where new: "notifications (decline_others t qs ?s1) = notifications ?s1 @ new"
     "map n_user_id new = map q_helper_id qs"
     "map n_message new = map (\<lambda>_. declined_message t) qs"
     "map n_is_read new = map (\<lambda>_. False) qs"
    using Cons.IH [of ?s1] by blast
  obtain n where n: "notifications ?s1 = notifications s @ [n]" "n_user_id n = q_helper_id q"
     "n_message n = declined_message t" "n_is_read n = False"
    by (simp add: create_notification_def update_quote_def)
  show ?case
    apply (rule exI [of _ "n # new"])
    using new n by simp
qed

lemma accept_quote_success:
  assumes "accept_quote c1 c2 uid quote_id s = (Inr (t', q'), s')"
  shows "\<exists>q t. find (\<lambda>x. q_id x = quote_id) (quotes s) = Some q
           \<and> find (\<lambda>x. t_id x = q_task_id q) (tasks s) = Some t
           \<and> t_poster_id t = uid \<and> c1 \<and> c2
           \<and> q' = q\<lparr>q_status := ''accepted''\<rparr>
           \<and> t' = t\<lparr> t_helper_id := Some (q_helper_id q), t_charges := Some (q_charges q),
                     t_hours := Some (q_hours q), t_status := ''accepted'' \<rparr>
           \<and> s' = create_notification (q_helper_id q) (assigned_message t)
                    (update_task (t_id t)
                       (\<lambda>x. x\<lparr> t_helper_id := Some (q_helper_id q), t_charges := Some (q_charges q),
                                t_hours := Some (q_hours q), t_status := ''accepted'' \<rparr>)
                       (update_quote quote_id (\<lambda>x. x\<lparr>q_status := ''accepted''\<rparr>)
                          (decline_others t
                             (filter (\<lambda>x. q_task_id x = t_id t \<and> q_id x \<noteq> quote_id) (quotes s)) s)))"
  using assms
  by (auto simp: accept_quote_def Let_def split: option.splits if_splits)

lemma accept_quote_quotes:
  assumes pk: "distinct (map q_id (quotes s))"
  shows "quotes (update_quote quote_id (\<lambda>x. x\<lparr>q_status := ''accepted''\<rparr>)
            (decline_others t (filter (\<lambda>x. q_task_id x = T \<and> q_id x \<noteq> quote_id) (quotes s)) s))
         = map (\<lambda>x. if q_id x = quote_id then x\<lparr>q_status := ''accepted''\<rparr>
                     else if q_task_id x = T then x\<lparr>q_status := ''declined''\<rparr> else x) (quotes s)"
proof -
  have key: "\<And>x. x \<in> set (quotes s) \<Longrightarrow>
      (q_id x \<in> q_id ` set (filter (\<lambda>x. q_task_id x = T \<and> q_id x \<noteq> quote_id) (quotes s)))
        = (q_task_id x = T \<and> q_id x \<noteq> quote_id)"
  proof -
    fix x assume xin: "x \<in> set (quotes s)"
    have "\<And>y. y \<in> set (quotes s) \<Longrightarrow> q_id y = q_id x \<Longrightarrow> y = x"
      using distinct_key_eq [OF pk _ xin] by blast
    then show "(q_id x \<in> q_id ` set (filter (\<lambda>x. q_task_id x = T \<and> q_id x \<noteq> quote_id) (quotes s)))
        = (q_task_id x = T \<and> q_id x \<noteq> quote_id)"
      using xin by auto
  qed
  show ?thesis
    unfolding update_quote_def
    apply (simp add: decline_others_quotes)
    using key apply auto
    done
qed

lemma filter_map_cong:
  "(\<And>x. x \<in> set xs \<Longrightarrow> P (f x) = Q x) \<Longrightarrow> filter P (map f xs) = map f (filter Q xs)"
  by (induction xs) auto

lemma find_map_update:
  "find (\<lambda>x. t_id x = i) ts = Some t \<Longrightarrow> (\<And>x. t_id (f x) = t_id x)
     \<Longrightarrow> find (\<lambda>x. t_id x = i) (map (\<lambda>x. if t_id x = i then f x else x) ts) = Some (f t)"
  by (induction ts) (auto split: if_splits)

lemma find_append_last:
  "(\<And>x. x \<in> set xs \<Longrightarrow> \<not> P x) \<Longrightarrow> P y \<Longrightarrow> find P (xs @ [y]) = Some y"
  by (induction xs) auto

lemma kept_subset:
  "set (case find P qs of None \<Rightarrow> qs | Some e \<Rightarrow> filter (\<lambda>q. q_id q \<noteq> q_id e) qs) \<subseteq> set qs"
  by (auto split: option.splits)

lemma accept_quote_ok:
  assumes "find (\<lambda>x. q_id x = quote_id) (quotes s) = Some q"
    and "find (\<lambda>x. t_id x = q_task_id q) (tasks s) = Some t"
    and "t_poster_id t = u"
  shows "accept_quote True True u quote_id s
           = (Inr (t\<lparr> t_helper_id := Some (q_helper_id q), t_charges := Some (q_charges q),
                      t_hours := Some (q_hours q), t_status := ''accepted'' \<rparr>,
                   q\<lparr>q_status := ''accepted''\<rparr>),
              create_notification (q_helper_id q) (assigned_message t)
                (update_task (t_id t)
                   (\<lambda>x. x\<lparr> t_helper_id := Some (q_helper_id q), t_charges := Some (q_charges q),
                            t_hours := Some (q_hours q), t_status := ''accepted'' \<rparr>)
                   (update_quote quote_id (\<lambda>x. x\<lparr>q_status := ''accepted''\<rparr>)
                      (decline_others t
                         (filter (\<lambda>x. q_task_id x = t_id t \<and> q_id x \<noteq> quote_id) (quotes s)) s))))"
  using assms by (simp add: accept_quote_def Let_def)


subsection \<open>Conversions\<close>

declare bit_length.simps [simp del]

lemma bit_length_le: "bit_length n \<le> k \<longleftrightarrow> n < 2 ^ k"
proof (induction n arbitrary: k rule: bit_length.induct)
  case (1 n)
  show ?case
  proof (cases "n = 0")
    case True
    then show ?thesis by (simp add: bit_length.simps [of 0])
  next
    case False
    show ?thesis
    proof (cases k)
      case 0
      then show ?thesis using False by (simp add: bit_length.simps [of n])
    next
      case (Suc j)
      have "bit_length (n div 2) \<le> j \<longleftrightarrow> n div 2 < 2 ^ j"
        using 1 [OF False] .
      moreover have "n div 2 < 2 ^ j \<longleftrightarrow> n < 2 ^ Suc j"
        by auto
      ultimately show ?thesis
        using False Suc by (simp add: bit_length.simps [of n])
    qed
  qed
qed

lemma round_to_double_exact: "n < 2 ^ 53 \<Longrightarrow> round_to_double n = n"
  using bit_length_le [of n 53] by (simp add: round_to_double_def Let_def)

lemma float_of_int_exact:
  assumes "\<bar>n\<bar> < 2 ^ 53"
  shows "float_of_int n = Some (of_int n)"
proof -
  have small: "nat \<bar>n\<bar> < 2 ^ 53"
    using assms by (simp add: nat_less_iff)
  have "(2::nat) ^ 53 < 2 ^ 1024"
    by (rule power_strict_increasing) simp_all
  then have "\<not> (2::nat) ^ 1024 \<le> nat \<bar>n\<bar>"
    using small by linarith
  moreover have "(if n < 0 then - real (nat \<bar>n\<bar>) else real (nat \<bar>n\<bar>)) = of_int n"
    by simp
  ultimately show ?thesis
    using round_to_double_exact [OF small] by (simp add: float_of_int_def Let_def)
qed

subsection \<open>The handlers on well-formed requests\<close>

lemma submit_quote_success:
  assumes "py_float pf charges = Some c" and "py_float pf hours = Some h" and "m \<noteq> []"
    and "sqlite_int task_id"
    and "find (\<lambda>t. t_id t = task_id \<and> t_status t = ''open'') (tasks s) = Some t"
  shows "submit_quote pf True u task_id charges hours (JString m) s
           = (Inr \<lparr> q_id = next_id (map q_id (quotes s)), q_task_id = task_id, q_helper_id = u,
                     q_charges = c, q_hours = h, q_mobile = m, q_status = ''pending'' \<rparr>,
              s\<lparr>quotes := (case find (\<lambda>q. q_task_id q = task_id \<and> q_helper_id q = u) (quotes s) of
                              None \<Rightarrow> quotes s
                            | Some e \<Rightarrow> filter (\<lambda>q. q_id q \<noteq> q_id e) (quotes s))
                           @ [\<lparr> q_id = next_id (map q_id (quotes s)), q_task_id = task_id,
                                q_helper_id = u, q_charges = c, q_hours = h, q_mobile = m,
                                q_status = ''pending'' \<rparr>]\<rparr>)"
proof -
  have "charges \<noteq> JNull" and "hours \<noteq> JNull"
    using assms(1,2) by auto
  then show ?thesis
    using assms by (simp add: submit_quote_def Let_def)
qed

lemma submit_quote_quotes:
  "snd (submit_quote pf commit_ok u task_id charges hours mobile s) = s
   \<or> (\<exists>q. fst (submit_quote pf commit_ok u task_id charges hours mobile s) = Inr q
           \<and> q_id q = next_id (map q_id (quotes s))
           \<and> q_task_id q = task_id \<and> q_helper_id q = u \<and> q_status q = ''pending''
           \<and> snd (submit_quote pf commit_ok u task_id charges hours mobile s)
               = s\<lparr>quotes :=
                    (case find (\<lambda>q. q_task_id q = task_id \<and> q_helper_id q = u) (quotes s) of
                       None \<Rightarrow> quotes s
                     | Some e \<Rightarrow> filter (\<lambda>q. q_id q \<noteq> q_id e) (quotes s)) @ [q]\<rparr>)"
  by (auto simp: submit_quote_def Let_def split: if_splits option.splits)





subsection \<open>What the handlers do to the quote table\<close>

lemma map_key_update: "(\<And>x. k (f x) = k x) \<Longrightarrow> map k (map f xs) = map k xs"
  by simp

lemma decline_others_keys:
  assumes "\<And>x a. k (x\<lparr>q_status := a\<rparr>) = k x"
  shows "map k (quotes (decline_others t qs s)) = map k (quotes s)"
  unfolding decline_others_quotes
  by (rule map_key_update) (simp add: assms)

lemma accept_quote_keys:
  assumes "\<And>x a. k (x\<lparr>q_status := a\<rparr>) = k x"
  shows "map k (quotes (snd (accept_quote c1 c2 u quote_id s))) = map k (quotes s)"
proof -
  have upd: "map k (quotes (update_quote i (\<lambda>x. x\<lparr>q_status := a\<rparr>) s0)) = map k (quotes s0)"
    for i a s0
    unfolding update_quote_def using assms by (simp add: comp_def)
  have keep: "map k (quotes (update_quote i (\<lambda>x. x\<lparr>q_status := a\<rparr>) (decline_others t qs s)))
                = map k (quotes s)" for i a t qs
    using upd [of i a "decline_others t qs s"] decline_others_keys [of k t qs s, OF assms] by simp
  show ?thesis
    by (simp add: accept_quote_def Let_def create_notification_def update_task_def keep
          split: option.splits)
qed


lemma delete_task_quotes:
  "quotes (snd (delete_task ok u task_id s)) = quotes s
   \<or> quotes (snd (delete_task ok u task_id s)) = filter (\<lambda>q. q_task_id q \<noteq> task_id) (quotes s)"
  by (simp add: delete_task_def split: option.splits)

lemma complete_task_quotes: "quotes (snd (complete_task ok u task_id s)) = quotes s"
  by (simp add: complete_task_def update_task_def split: option.splits)

lemma create_rating_quotes:
  "create_rating pf ok u task_id ratee_id score comment s = Some (r, s') \<Longrightarrow> quotes s' = quotes s"
  by (auto simp: create_rating_def Let_def split: if_splits option.splits json.splits)

lemma submit_quote_shape:
  "quotes (snd (submit_quote pf ok u task_id charges hours mobile s)) = quotes s
   \<or> (\<exists>q. q_id q = next_id (map q_id (quotes s))
         \<and> q_task_id q = task_id \<and> q_helper_id q = u \<and> q_status q = ''pending''
         \<and> quotes (snd (submit_quote pf ok u task_id charges hours mobile s))
             = (case find (\<lambda>q. q_task_id q = task_id \<and> q_helper_id q = u) (quotes s) of
                  None \<Rightarrow> quotes s
                | Some e \<Rightarrow> filter (\<lambda>q. q_id q \<noteq> q_id e) (quotes s)) @ [q])"
  using submit_quote_quotes [of pf ok u task_id charges hours mobile s] by auto

lemma kept_no_pair:
  assumes "distinct (map (\<lambda>q. (q_task_id q, q_helper_id q)) qs)"
    and "x \<in> set (case find (\<lambda>q. q_task_id q = task_id \<and> q_helper_id q = u) qs of
                     None \<Rightarrow> qs
                   | Some e \<Rightarrow> filter (\<lambda>q. q_id q \<noteq> q_id e) qs)"
  shows "\<not> (q_task_id x = task_id \<and> q_helper_id x = u)"
proof (cases "find (\<lambda>q. q_task_id q = task_id \<and> q_helper_id q = u) qs")
  case None
  then show ?thesis
    using assms(2) find_None_D [OF None, of x] by simp
next
  case (Some e)
  then have ein: "e \<in> set qs" and e: "q_task_id e = task_id" "q_helper_id e = u"
    using find_SomeD [OF Some] by simp_all
  have xin: "x \<in> set qs" and xid: "q_id x \<noteq> q_id e"
    using assms(2) Some by simp_all
  show ?thesis
  proof
    assume "q_task_id x = task_id \<and> q_helper_id x = u"
    then have "(q_task_id x, q_helper_id x) = (q_task_id e, q_helper_id e)"
      using e by simp
    then have "x = e"
      by (rule distinct_key_eq [OF assms(1) xin ein])
    then show False using xid by simp
  qed
qed

lemma kept_distinct:
  "distinct (map k qs)
     \<Longrightarrow> distinct (map k (case find P qs of None \<Rightarrow> qs | Some e \<Rightarrow> filter (\<lambda>q. q_id q \<noteq> q_id e) qs))"
  by (simp add: distinct_map_filter split: option.splits)

lemma kept_fresh_id:
  assumes "x \<in> set (case find P qs of None \<Rightarrow> qs | Some e \<Rightarrow> filter (\<lambda>q. q_id q \<noteq> q_id e) qs)"
  shows "q_id x \<noteq> next_id (map q_id qs)"
proof -
  have "x \<in> set qs"
    using assms kept_subset [where P = P and qs = qs] by auto
  then have "q_id x < next_id (map q_id qs)"
    by (intro next_id_fresh) simp
  then show ?thesis by simp
qed

subsection \<open>At most one accepted quote\<close>





lemma submit_quote_pairs:
  assumes "one_quote_per_pair s"
  shows "one_quote_per_pair (snd (submit_quote pf ok u task_id charges hours mobile s))"
proof -
  let ?k = "\<lambda>q. (q_task_id q, q_helper_id q)"
  let ?kept = "case find (\<lambda>q. q_task_id q = task_id \<and> q_helper_id q = u) (quotes s) of
                 None \<Rightarrow> quotes s
               | Some e \<Rightarrow> filter (\<lambda>q. q_id q \<noteq> q_id e) (quotes s)"
  have d: "distinct (map ?k (quotes s))"
    using assms by (simp add: one_quote_per_pair_def)
  consider "quotes (snd (submit_quote pf ok u task_id charges hours mobile s)) = quotes s"
    | q where "q_task_id q = task_id" "q_helper_id q = u"
        "quotes (snd (submit_quote pf ok u task_id charges hours mobile s)) = ?kept @ [q]"
    using submit_quote_shape [of pf ok u task_id charges hours mobile s] by blast
  then show ?thesis
  proof cases
    case 1
    then show ?thesis using d by (simp add: one_quote_per_pair_def)
  next
    case 2
    have "distinct (map ?k ?kept)"
      using d by (rule kept_distinct)
    moreover have "?k q \<notin> ?k ` set ?kept"
    proof
      assume "?k q \<in> ?k ` set ?kept"
      then obtain x where x: "x \<in> set ?kept" "?k x = ?k q"
        by auto
      then have "q_task_id x = task_id \<and> q_helper_id x = u"
        using 2(1,2) by simp
      then show False
        using kept_no_pair [OF d x(1)] by simp
    qed
    ultimately show ?thesis
      by (simp add: one_quote_per_pair_def 2(3))
  qed
qed


section \<open>AcceptQuote\<close>

text \<open>
  C1. Let \<open>accept_quote\<close> succeed on the quote \<open>q\<close> with id \<open>quote_id\<close>, whose task is
  \<open>T = q_task_id q\<close>, in a database whose quote ids are unique (they are primary keys).
  Afterwards the quotes are those of before with \<open>q\<close> accepted and every other quote of
  \<open>T\<close> declined, so the accepted quotes of \<open>T\<close> are exactly \<open>q\<close>; the task \<open>T\<close> has status
  accepted and the helper, charges and hours of \<open>q\<close>; and the new notifications are one
  for the helper of each declined quote, in order, followed by one for the helper of \<open>q\<close>.
\<close>

theorem accept_quote_outcome:
  assumes pk: "distinct (map q_id (quotes s))"
    and ok: "accept_quote commit1_ok commit2_ok current_user_id quote_id s = (Inr (t', q'), s')"
  shows "\<exists>q others new.
           find (\<lambda>x. q_id x = quote_id) (quotes s) = Some q
         \<and> others = filter (\<lambda>x. q_task_id x = q_task_id q \<and> q_id x \<noteq> quote_id) (quotes s)
         \<and> quotes s' = map (\<lambda>x. if q_id x = quote_id then x\<lparr>q_status := ''accepted''\<rparr>
                                  else if q_task_id x = q_task_id q then x\<lparr>q_status := ''declined''\<rparr>
                                  else x) (quotes s)
         \<and> filter (\<lambda>x. q_task_id x = q_task_id q \<and> q_status x = ''accepted'') (quotes s')
             = [q\<lparr>q_status := ''accepted''\<rparr>]
         \<and> q' = q\<lparr>q_status := ''accepted''\<rparr>
         \<and> find (\<lambda>x. t_id x = q_task_id q) (tasks s') = Some t'
         \<and> t_status t' = ''accepted''
         \<and> t_helper_id t' = Some (q_helper_id q)
         \<and> t_charges t' = Some (q_charges q)
         \<and> t_hours t' = Some (q_hours q)
         \<and> notifications s' = notifications s @ new
         \<and> map n_user_id new = map q_helper_id others @ [q_helper_id q]
         \<and> length new = length others + 1"
proof -
  obtain q t where q: "find (\<lambda>x. q_id x = quote_id) (quotes s) = Some q"
    and t: "find (\<lambda>x. t_id x = q_task_id q) (tasks s) = Some t"
    and q': "q' = q\<lparr>q_status := ''accepted''\<rparr>"
    and t': "t' = t\<lparr> t_helper_id := Some (q_helper_id q), t_charges := Some (q_charges q),
                     t_hours := Some (q_hours q), t_status := ''accepted'' \<rparr>"
    and s': "s' = create_notification (q_helper_id q) (assigned_message t)
                    (update_task (t_id t)
                       (\<lambda>x. x\<lparr> t_helper_id := Some (q_helper_id q), t_charges := Some (q_charges q),
                                t_hours := Some (q_hours q), t_status := ''accepted'' \<rparr>)
                       (update_quote quote_id (\<lambda>x. x\<lparr>q_status := ''accepted''\<rparr>)
                          (decline_others t
                             (filter (\<lambda>x. q_task_id x = t_id t \<and> q_id x \<noteq> quote_id) (quotes s)) s)))"
    using accept_quote_success [OF ok] by blast
  define T where "T = q_task_id q"
  define others where "others = filter (\<lambda>x. q_task_id x = T \<and> q_id x \<noteq> quote_id) (quotes s)"
  define f where "f = (\<lambda>x::quote. if q_id x = quote_id then x\<lparr>q_status := ''accepted''\<rparr>
                 else if q_task_id x = T then x\<lparr>q_status := ''declined''\<rparr> else x)"
  define g where "g = (\<lambda>x::task. x\<lparr> t_helper_id := Some (q_helper_id q), t_charges := Some (q_charges q),
                     t_hours := Some (q_hours q), t_status := ''accepted'' \<rparr>)"
  have qin: "q \<in> set (quotes s)" and qid: "q_id q = quote_id"
    using find_SomeD [OF q] by simp_all
  have tid: "t_id t = T" and tin: "t \<in> set (tasks s)"
    using find_SomeD [OF t] by (simp_all add: T_def)
  have quotes': "quotes s' = map f (quotes s)"
    using accept_quote_quotes [OF pk, of quote_id t T]
    by (simp add: s' tid f_def create_notification_def update_task_def)
  have sel: "(q_task_id (f x) = T \<and> q_status (f x) = ''accepted'') = (q_id x = q_id q)"
    if xin: "x \<in> set (quotes s)" for x
  proof (cases "q_id x = quote_id")
    case True
    then have "q_id x = q_id q" using qid by simp
    then have "x = q" by (rule distinct_key_eq [OF pk xin qin])
    then show ?thesis using qid by (simp add: f_def T_def)
  next
    case False
    then show ?thesis using qid by (simp add: f_def)
  qed
  have "filter (\<lambda>x. q_task_id x = T \<and> q_status x = ''accepted'') (map f (quotes s))
          = map f (filter (\<lambda>x. q_id x = q_id q) (quotes s))"
    by (rule filter_map_cong) (rule sel)
  also have "\<dots> = [f q]"
    using filter_distinct_key [OF pk qin] by simp
  also have "f q = q\<lparr>q_status := ''accepted''\<rparr>"
    using qid by (simp add: f_def)
  finally have acc: "filter (\<lambda>x. q_task_id x = T \<and> q_status x = ''accepted'') (quotes s')
          = [q\<lparr>q_status := ''accepted''\<rparr>]"
    by (simp add: quotes')
  have tasks': "tasks s' = map (\<lambda>x. if t_id x = T then g x else x) (tasks s)"
    by (simp add: s' tid g_def create_notification_def update_task_def update_quote_def)
  have "find (\<lambda>x. t_id x = T) (map (\<lambda>x. if t_id x = T then g x else x) (tasks s)) = Some (g t)"
    by (rule find_map_update) (use t in \<open>simp_all add: T_def g_def\<close>)
  then have findt: "find (\<lambda>x. t_id x = T) (tasks s') = Some t'"
    by (simp add: tasks' t' g_def)
  obtain new0 where new0: "notifications (decline_others t others s) = notifications s @ new0"
      "map n_user_id new0 = map q_helper_id others"
    using decline_others_notifications [of t others s] by blast
  have len0: "length new0 = length others"
    using new0(2) by (metis length_map)
  have "notifications s' = notifications (decline_others t others s)
           @ [\<lparr> n_id = next_id (map n_id (notifications (decline_others t others s))),
                n_user_id = q_helper_id q, n_message = assigned_message t, n_is_read = False \<rparr>]"
    by (simp add: s' tid others_def create_notification_def update_task_def update_quote_def)
  then obtain n where n: "notifications s' = notifications s @ (new0 @ [n])"
      "n_user_id n = q_helper_id q"
    using new0(1) by simp
  have tf: "t_status t' = ''accepted''" "t_helper_id t' = Some (q_helper_id q)"
       "t_charges t' = Some (q_charges q)" "t_hours t' = Some (q_hours q)"
    by (simp_all add: t')
  have un: "map n_user_id (new0 @ [n]) = map q_helper_id others @ [q_helper_id q]"
    using new0(2) n(2) by simp
  have ln: "length (new0 @ [n]) = length others + 1"
    using len0 by simp
  show ?thesis
    apply (rule exI [of _ q], rule exI [of _ others], rule exI [of _ "new0 @ [n]"])
    using q quotes' acc q' findt n(1) un ln tf
    unfolding others_def f_def T_def
    by blast
qed

lemma ex_accept_quote:
  "accept_quote True True 1 1 ex_db_quoted
     = (Inr (ex_task_accepted, ex_quote2\<lparr>q_status := ''accepted''\<rparr>), ex_db_accepted)"
  by (simp add: accept_quote_def create_notification_def update_quote_def update_task_def
        next_id_def Let_def ex_defs)

theorem accept_quote_outcome_witness:
  "distinct (map q_id (quotes ex_db_quoted))
   \<and> accept_quote True True 1 1 ex_db_quoted
       = (Inr (ex_task_accepted, ex_quote2\<lparr>q_status := ''accepted''\<rparr>), ex_db_accepted)
   \<and> filter (\<lambda>x. q_task_id x = 1 \<and> q_status x = ''accepted'') (quotes ex_db_accepted)
       = [ex_quote2\<lparr>q_status := ''accepted''\<rparr>]
   \<and> map n_user_id (notifications ex_db_accepted) = [3, 2]"
proof -
  have pk: "distinct (map q_id (quotes ex_db_quoted))"
    by (simp add: ex_defs)
  obtain q where
      "find (\<lambda>x. q_id x = 1) (quotes ex_db_quoted) = Some q"
      "filter (\<lambda>x. q_task_id x = q_task_id q \<and> q_status x = ''accepted'') (quotes ex_db_accepted)
             = [q\<lparr>q_status := ''accepted''\<rparr>]"
    using accept_quote_outcome [OF pk ex_accept_quote] by blast
  moreover have "find (\<lambda>x. q_id x = 1) (quotes ex_db_quoted) = Some ex_quote2"
    by (simp add: ex_defs)
  moreover have "q_task_id ex_quote2 = 1"
    by (simp add: ex_defs)
  moreover have "map n_user_id (notifications ex_db_accepted) = [3, 2]"
    by (simp add: ex_defs)
  ultimately show ?thesis
    using pk ex_accept_quote by simp
qed

section \<open>The two commits of AcceptQuote\<close>

text \<open>
  C2 (as the code has it). \<open>accept_quote\<close> commits twice. Let the quote exist and the
  caller be the poster of its task. The first commit holds the declines of the other
  quotes with their notifications, the acceptance of the quote and the update of the
  task: when it fails nothing is stored. The notification of the accepted helper is
  stored by the second commit: when that one fails the request fails, but what the
  first commit stored stays (the task is accepted, the other quotes are declined and
  their helpers notified), and only the notification of the accepted helper is missing.
\<close>

theorem accept_quote_commits:
  assumes q: "find (\<lambda>x. q_id x = quote_id) (quotes s) = Some q"
    and t: "find (\<lambda>x. t_id x = q_task_id q) (tasks s) = Some t"
    and poster: "t_poster_id t = u"
  shows "\<exists>s3 t' new.
           accept_quote False commit2_ok u quote_id s = (Inl InternalServerError, s)
         \<and> accept_quote True False u quote_id s = (Inl InternalServerError, s3)
         \<and> accept_quote True True u quote_id s
             = (Inr (t', q\<lparr>q_status := ''accepted''\<rparr>),
                create_notification (q_helper_id q) (assigned_message t) s3)
         \<and> t' = t\<lparr> t_helper_id := Some (q_helper_id q), t_charges := Some (q_charges q),
                   t_hours := Some (q_hours q), t_status := ''accepted'' \<rparr>
         \<and> find (\<lambda>x. t_id x = q_task_id q) (tasks s3) = Some t'
         \<and> quotes s3 = map (\<lambda>x. if q_id x = quote_id then x\<lparr>q_status := ''accepted''\<rparr> else x)
                          (quotes (decline_others t
                             (filter (\<lambda>x. q_task_id x = q_task_id q \<and> q_id x \<noteq> quote_id) (quotes s)) s))
         \<and> notifications s3 = notifications s @ new
         \<and> map n_user_id new
             = map q_helper_id (filter (\<lambda>x. q_task_id x = q_task_id q \<and> q_id x \<noteq> quote_id) (quotes s))"
proof -
  define others where "others = filter (\<lambda>x. q_task_id x = q_task_id q \<and> q_id x \<noteq> quote_id) (quotes s)"
  define g where "g = (\<lambda>x::task. x\<lparr> t_helper_id := Some (q_helper_id q), t_charges := Some (q_charges q),
                            t_hours := Some (q_hours q), t_status := ''accepted'' \<rparr>)"
  define s3 where "s3 = update_task (q_task_id q) g
                          (update_quote quote_id (\<lambda>x. x\<lparr>q_status := ''accepted''\<rparr>)
                             (decline_others t others s))"
  have tid: "t_id t = q_task_id q"
    using find_SomeD [OF t] by simp
  have a: "accept_quote False commit2_ok u quote_id s = (Inl InternalServerError, s)"
    using q t poster by (simp add: accept_quote_def Let_def)
  have b: "accept_quote True False u quote_id s = (Inl InternalServerError, s3)"
    using q t poster by (simp add: accept_quote_def Let_def tid s3_def others_def g_def)
  have c: "accept_quote True True u quote_id s
             = (Inr (g t, q\<lparr>q_status := ''accepted''\<rparr>),
                create_notification (q_helper_id q) (assigned_message t) s3)"
    using q t poster by (simp add: accept_quote_def Let_def tid s3_def others_def g_def)
  have "find (\<lambda>x. t_id x = q_task_id q) (map (\<lambda>x. if t_id x = q_task_id q then g x else x) (tasks s))
          = Some (g t)"
    by (rule find_map_update) (use t in \<open>simp_all add: g_def\<close>)
  then have d: "find (\<lambda>x. t_id x = q_task_id q) (tasks s3) = Some (g t)"
    by (simp add: s3_def update_task_def update_quote_def)
  have e: "quotes s3 = map (\<lambda>x. if q_id x = quote_id then x\<lparr>q_status := ''accepted''\<rparr> else x)
                          (quotes (decline_others t others s))"
    by (simp add: s3_def update_task_def update_quote_def)
  obtain new where new: "notifications (decline_others t others s) = notifications s @ new"
      "map n_user_id new = map q_helper_id others"
    using decline_others_notifications [of t others s] by blast
  have f: "notifications s3 = notifications s @ new"
    using new(1) by (simp add: s3_def update_task_def update_quote_def)
  show ?thesis
    apply (rule exI [of _ s3], rule exI [of _ "g t"], rule exI [of _ new])
    using a b c d e f new(2) unfolding others_def by (simp add: g_def)
qed

theorem accept_quote_commits_witness:
  "find (\<lambda>x. q_id x = 1) (quotes ex_db_quoted) = Some ex_quote2
   \<and> find (\<lambda>x. t_id x = q_task_id ex_quote2) (tasks ex_db_quoted) = Some ex_task
   \<and> t_poster_id ex_task = 1
   \<and> (\<exists>s3. accept_quote False True 1 1 ex_db_quoted = (Inl InternalServerError, ex_db_quoted)
          \<and> accept_quote True False 1 1 ex_db_quoted = (Inl InternalServerError, s3)
          \<and> find (\<lambda>x. t_id x = q_task_id ex_quote2) (tasks s3)
              = Some (ex_task\<lparr> t_helper_id := Some (q_helper_id ex_quote2),
                               t_charges := Some (q_charges ex_quote2),
                               t_hours := Some (q_hours ex_quote2), t_status := ''accepted'' \<rparr>))"
proof -
  have a: "find (\<lambda>x. q_id x = 1) (quotes ex_db_quoted) = Some ex_quote2"
    by (simp add: ex_defs)
  have b: "find (\<lambda>x. t_id x = q_task_id ex_quote2) (tasks ex_db_quoted) = Some ex_task"
    by (simp add: ex_defs)
  have c: "t_poster_id ex_task = 1"
    by (simp add: ex_defs)
  have "\<exists>s3. accept_quote False True 1 1 ex_db_quoted = (Inl InternalServerError, ex_db_quoted)
          \<and> accept_quote True False 1 1 ex_db_quoted = (Inl InternalServerError, s3)
          \<and> find (\<lambda>x. t_id x = q_task_id ex_quote2) (tasks s3)
              = Some (ex_task\<lparr> t_helper_id := Some (q_helper_id ex_quote2),
                               t_charges := Some (q_charges ex_quote2),
                               t_hours := Some (q_hours ex_quote2), t_status := ''accepted'' \<rparr>)"
    using accept_quote_commits [OF a b c, of True] by blast
  then show ?thesis
    using a b c by blast
qed

text \<open>
  The claim as written fails: when the second commit fails, the request answers with an
  error and yet the task is accepted, quote 2 is declined and its helper is notified.
\<close>

theorem accept_quote_partial_counterexample:
  "accept_quote True False 1 1 ex_db_quoted = (Inl InternalServerError, ex_db_first_commit)
   \<and> ex_db_first_commit \<noteq> ex_db_quoted
   \<and> map t_status (tasks ex_db_first_commit) = [''accepted'']
   \<and> map q_status (quotes ex_db_first_commit) = [''accepted'', ''declined'']
   \<and> map n_user_id (notifications ex_db_first_commit) = [3]"
  by (simp add: accept_quote_def create_notification_def update_quote_def update_task_def
        next_id_def Let_def ex_defs)

section \<open>At most one accepted quote at a time\<close>




section \<open>One quote per task and helper\<close>

text \<open>
  C4. No two quotes share task and helper: this holds of a database without quotes and
  every handler keeps it (\<open>submit_quote\<close>, \<open>accept_quote\<close> and \<open>delete_task\<close> write the
  quote table; \<open>complete_task\<close>, \<open>create_rating\<close> and every other handler of \<^verbatim>\<open>app.py\<close>
  leave it as it is). In such a database, when a helper submits two valid quotes for
  an open task one after the other, both calls succeed, and afterwards the quotes of
  this task by this helper are the second quote alone, pending, with the charges,
  hours and mobile of the second call.
\<close>

theorem one_quote_per_task_and_helper:
  "(quotes s = [] \<longrightarrow> one_quote_per_pair s)
   \<and> (one_quote_per_pair s \<longrightarrow>
         one_quote_per_pair (snd (submit_quote pf ok u task_id charges hours mobile s))
       \<and> one_quote_per_pair (snd (accept_quote ok1 ok2 u quote_id s))
       \<and> one_quote_per_pair (snd (delete_task ok u task_id s))
       \<and> one_quote_per_pair (snd (complete_task ok u task_id s))
       \<and> (create_rating pf ok u rated_task ratee_id score comment s = Some (r, s')
            \<longrightarrow> one_quote_per_pair s')
       \<and> (quotes s'' = quotes s \<longrightarrow> one_quote_per_pair s''))
   \<and> (one_quote_per_pair s \<and> sqlite_int task_id
        \<and> find (\<lambda>t. t_id t = task_id \<and> t_status t = ''open'') (tasks s) = Some t
        \<and> py_float pf charges1 = Some c1 \<and> py_float pf hours1 = Some h1 \<and> m1 \<noteq> []
        \<and> py_float pf charges2 = Some c2 \<and> py_float pf hours2 = Some h2 \<and> m2 \<noteq> []
      \<longrightarrow> (\<exists>q1 s1 q2 s2.
              submit_quote pf True u task_id charges1 hours1 (JString m1) s = (Inr q1, s1)
            \<and> submit_quote pf True u task_id charges2 hours2 (JString m2) s1 = (Inr q2, s2)
            \<and> filter (\<lambda>q. q_task_id q = task_id \<and> q_helper_id q = u) (quotes s2) = [q2]
            \<and> q_charges q2 = c2 \<and> q_hours q2 = h2 \<and> q_mobile q2 = m2
            \<and> q_status q2 = ''pending''))"
proof -
  let ?k = "\<lambda>q. (q_task_id q, q_helper_id q)"
  have init: "quotes s = [] \<longrightarrow> one_quote_per_pair s"
    by (simp add: one_quote_per_pair_def)
  have keep: "one_quote_per_pair s \<longrightarrow>
         one_quote_per_pair (snd (submit_quote pf ok u task_id charges hours mobile s))
       \<and> one_quote_per_pair (snd (accept_quote ok1 ok2 u quote_id s))
       \<and> one_quote_per_pair (snd (delete_task ok u task_id s))
       \<and> one_quote_per_pair (snd (complete_task ok u task_id s))
       \<and> (create_rating pf ok u rated_task ratee_id score comment s = Some (r, s')
            \<longrightarrow> one_quote_per_pair s')
       \<and> (quotes s'' = quotes s \<longrightarrow> one_quote_per_pair s'')"
  proof
    assume inv: "one_quote_per_pair s"
    then have d: "distinct (map ?k (quotes s))"
      by (simp add: one_quote_per_pair_def)
    have a: "one_quote_per_pair (snd (submit_quote pf ok u task_id charges hours mobile s))"
      using inv by (rule submit_quote_pairs)
    have "map ?k (quotes (snd (accept_quote ok1 ok2 u quote_id s))) = map ?k (quotes s)"
      by (rule accept_quote_keys) simp
    then have b: "one_quote_per_pair (snd (accept_quote ok1 ok2 u quote_id s))"
      using d by (simp add: one_quote_per_pair_def)
    have c: "one_quote_per_pair (snd (delete_task ok u task_id s))"
      using delete_task_quotes [of ok u task_id s] d
      by (auto simp: one_quote_per_pair_def distinct_map_filter)
    have e: "one_quote_per_pair (snd (complete_task ok u task_id s))"
      using d by (simp add: one_quote_per_pair_def complete_task_quotes)
    have f: "create_rating pf ok u rated_task ratee_id score comment s = Some (r, s')
            \<longrightarrow> one_quote_per_pair s'"
      using d create_rating_quotes [of pf ok u rated_task ratee_id score comment s r s']
      by (auto simp: one_quote_per_pair_def)
    have g: "quotes s'' = quotes s \<longrightarrow> one_quote_per_pair s''"
      using d by (simp add: one_quote_per_pair_def)
    show "one_quote_per_pair (snd (submit_quote pf ok u task_id charges hours mobile s))
       \<and> one_quote_per_pair (snd (accept_quote ok1 ok2 u quote_id s))
       \<and> one_quote_per_pair (snd (delete_task ok u task_id s))
       \<and> one_quote_per_pair (snd (complete_task ok u task_id s))
       \<and> (create_rating pf ok u rated_task ratee_id score comment s = Some (r, s')
            \<longrightarrow> one_quote_per_pair s')
       \<and> (quotes s'' = quotes s \<longrightarrow> one_quote_per_pair s'')"
      by (intro conjI; (rule a b c e f g))
  qed
  have twice: "one_quote_per_pair s \<and> sqlite_int task_id
        \<and> find (\<lambda>t. t_id t = task_id \<and> t_status t = ''open'') (tasks s) = Some t
        \<and> py_float pf charges1 = Some c1 \<and> py_float pf hours1 = Some h1 \<and> m1 \<noteq> []
        \<and> py_float pf charges2 = Some c2 \<and> py_float pf hours2 = Some h2 \<and> m2 \<noteq> []
      \<longrightarrow> (\<exists>q1 s1 q2 s2.
              submit_quote pf True u task_id charges1 hours1 (JString m1) s = (Inr q1, s1)
            \<and> submit_quote pf True u task_id charges2 hours2 (JString m2) s1 = (Inr q2, s2)
            \<and> filter (\<lambda>q. q_task_id q = task_id \<and> q_helper_id q = u) (quotes s2) = [q2]
            \<and> q_charges q2 = c2 \<and> q_hours q2 = h2 \<and> q_mobile q2 = m2
            \<and> q_status q2 = ''pending'')"
  proof
    assume h: "one_quote_per_pair s \<and> sqlite_int task_id
        \<and> find (\<lambda>t. t_id t = task_id \<and> t_status t = ''open'') (tasks s) = Some t
        \<and> py_float pf charges1 = Some c1 \<and> py_float pf hours1 = Some h1 \<and> m1 \<noteq> []
        \<and> py_float pf charges2 = Some c2 \<and> py_float pf hours2 = Some h2 \<and> m2 \<noteq> []"
    then have d: "distinct (map ?k (quotes s))"
      by (simp add: one_quote_per_pair_def)
    have range: "sqlite_int task_id"
      and topen: "find (\<lambda>t. t_id t = task_id \<and> t_status t = ''open'') (tasks s) = Some t"
      and v1: "py_float pf charges1 = Some c1" "py_float pf hours1 = Some h1" "m1 \<noteq> []"
      and v2: "py_float pf charges2 = Some c2" "py_float pf hours2 = Some h2" "m2 \<noteq> []"
      using h by blast+
    define P where "P = (\<lambda>q::quote. q_task_id q = task_id \<and> q_helper_id q = u)"
    define kept where "kept = (case find P (quotes s) of
                                 None \<Rightarrow> quotes s
                               | Some e \<Rightarrow> filter (\<lambda>q. q_id q \<noteq> q_id e) (quotes s))"
    define q1 where "q1 = \<lparr> q_id = next_id (map q_id (quotes s)), q_task_id = task_id,
                           q_helper_id = u, q_charges = c1, q_hours = h1, q_mobile = m1,
                           q_status = ''pending'' \<rparr>"
    define s1 where "s1 = s\<lparr>quotes := kept @ [q1]\<rparr>"
    define q2 where "q2 = \<lparr> q_id = next_id (map q_id (quotes s1)), q_task_id = task_id,
                           q_helper_id = u, q_charges = c2, q_hours = h2, q_mobile = m2,
                           q_status = ''pending'' \<rparr>"
    define s2 where "s2 = s1\<lparr>quotes := kept @ [q2]\<rparr>"
    have first: "submit_quote pf True u task_id charges1 hours1 (JString m1) s = (Inr q1, s1)"
      using submit_quote_success [OF v1 range topen, of u]
      by (simp add: q1_def s1_def kept_def P_def)
    have nopair: "\<not> P x" if "x \<in> set kept" for x
      using kept_no_pair [OF d, where x = x and task_id = task_id and u = u] that by (simp add: kept_def P_def)
    have fresh: "q_id x \<noteq> q_id q1" if "x \<in> set kept" for x
      using kept_fresh_id [where x = x and P = P and qs = "quotes s"] that by (simp add: kept_def q1_def)
    have existing: "find P (quotes s1) = Some q1"
      unfolding s1_def using find_append_last [of kept P q1] nopair
      by (simp add: P_def q1_def)
    have "filter (\<lambda>q. q_id q \<noteq> q_id q1) kept = kept"
      using fresh by (simp add: filter_id_conv)
    then have kept2: "filter (\<lambda>q. q_id q \<noteq> q_id q1) (quotes s1) = kept"
      by (simp add: s1_def)
    have topen1: "find (\<lambda>t. t_id t = task_id \<and> t_status t = ''open'') (tasks s1) = Some t"
      using topen by (simp add: s1_def)
    have second: "submit_quote pf True u task_id charges2 hours2 (JString m2) s1 = (Inr q2, s2)"
      using submit_quote_success [OF v2 range topen1, of u] existing kept2
      by (simp add: q2_def s2_def P_def)
    have "filter P kept = []"
      using nopair by (simp add: filter_empty_conv)
    then have only: "filter P (quotes s2) = [q2]"
      by (simp add: s2_def P_def q2_def)
    have vals: "q_charges q2 = c2" "q_hours q2 = h2" "q_mobile q2 = m2" "q_status q2 = ''pending''"
      by (simp_all add: q2_def)
    show "\<exists>q1 s1 q2 s2.
              submit_quote pf True u task_id charges1 hours1 (JString m1) s = (Inr q1, s1)
            \<and> submit_quote pf True u task_id charges2 hours2 (JString m2) s1 = (Inr q2, s2)
            \<and> filter (\<lambda>q. q_task_id q = task_id \<and> q_helper_id q = u) (quotes s2) = [q2]
            \<and> q_charges q2 = c2 \<and> q_hours q2 = h2 \<and> q_mobile q2 = m2
            \<and> q_status q2 = ''pending''"
      apply (rule exI [of _ q1], rule exI [of _ s1], rule exI [of _ q2], rule exI [of _ s2])
      using first second only vals unfolding P_def by simp
  qed
  show ?thesis
    by (intro conjI; (rule init keep twice))
qed

theorem one_quote_per_task_and_helper_witness:
  "one_quote_per_pair ex_db
   \<and> one_quote_per_pair ex_db_quoted
   \<and> one_quote_per_pair (snd (accept_quote True True 1 1 ex_db_quoted))
   \<and> (\<exists>q1 s1 q2 s2.
         submit_quote ex_platform True 2 1 (JInt 50) (JInt 2) (JString ''555'') ex_db = (Inr q1, s1)
       \<and> submit_quote ex_platform True 2 1 (JInt 45) (JFloat 2.5) (JString ''556'') s1 = (Inr q2, s2)
       \<and> filter (\<lambda>q. q_task_id q = 1 \<and> q_helper_id q = 2) (quotes s2) = [q2]
       \<and> q_charges q2 = 45 \<and> q_hours q2 = 2.5 \<and> q_mobile q2 = ''556''
       \<and> q_status q2 = ''pending'')"
proof -
  have e: "quotes ex_db = []"
    by (simp add: ex_defs)
  have a: "one_quote_per_pair ex_db"
    using e by (rule one_quote_per_task_and_helper [THEN conjunct1, THEN mp])
  have b: "one_quote_per_pair ex_db_quoted"
    by (simp add: one_quote_per_pair_def ex_defs)
  have c: "one_quote_per_pair (snd (accept_quote True True 1 1 ex_db_quoted))"
    by (rule one_quote_per_task_and_helper [THEN conjunct2, THEN conjunct1, THEN mp, OF b,
          THEN conjunct2, THEN conjunct1])
  have r: "sqlite_int 1"
    by (simp add: sqlite_int_def)
  have t: "find (\<lambda>t. t_id t = 1 \<and> t_status t = ''open'') (tasks ex_db) = Some ex_task"
    by (simp add: ex_defs)
  have v: "py_float ex_platform (JInt 50) = Some 50" "py_float ex_platform (JInt 2) = Some 2"
      "py_float ex_platform (JInt 45) = Some 45" "py_float ex_platform (JFloat 2.5) = Some 2.5"
      "''555'' \<noteq> ([] :: string)" "''556'' \<noteq> ([] :: string)"
    by (simp_all add: float_of_int_exact)
  have d: "\<exists>q1 s1 q2 s2.
         submit_quote ex_platform True 2 1 (JInt 50) (JInt 2) (JString ''555'') ex_db = (Inr q1, s1)
       \<and> submit_quote ex_platform True 2 1 (JInt 45) (JFloat 2.5) (JString ''556'') s1 = (Inr q2, s2)
       \<and> filter (\<lambda>q. q_task_id q = 1 \<and> q_helper_id q = 2) (quotes s2) = [q2]
       \<and> q_charges q2 = 45 \<and> q_hours q2 = 2.5 \<and> q_mobile q2 = ''556''
       \<and> q_status q2 = ''pending''"
    by (rule one_quote_per_task_and_helper [THEN conjunct2, THEN conjunct2, THEN mp])
       (intro conjI; (rule a r t v))
  show ?thesis
    by (intro conjI; (rule a b c d))
qed

section \<open>SubmitQuote checks no sign\<close>

text \<open>
  C5 (as the code has it). \<open>submit_quote\<close> tests \<open>charges\<close> and \<open>hours\<close> for presence and
  converts them with \<^verbatim>\<open>float\<close>; it never looks at their sign. Whatever numbers \<open>c\<close>
  and \<open>h\<close> the conversion gives, negative ones too, an otherwise valid submission
  succeeds and the quote that is stored has charges \<open>c\<close> and hours \<open>h\<close>.
\<close>

theorem submit_quote_no_sign_check:
  assumes "py_float pf charges = Some c" and "py_float pf hours = Some h"
    and "m \<noteq> []" and "sqlite_int task_id"
    and "find (\<lambda>t. t_id t = task_id \<and> t_status t = ''open'') (tasks s) = Some t"
  shows "\<exists>q s'. submit_quote pf True u task_id charges hours (JString m) s = (Inr q, s')
           \<and> q_charges q = c \<and> q_hours q = h \<and> q \<in> set (quotes s')"
  using submit_quote_success [OF assms, of u] by simp

theorem submit_quote_no_sign_check_witness:
  "py_float ex_platform (JInt (- 5)) = Some (- 5) \<and> py_float ex_platform (JFloat (- 2)) = Some (- 2)
   \<and> ''555'' \<noteq> ([] :: string) \<and> sqlite_int 1
   \<and> find (\<lambda>t. t_id t = 1 \<and> t_status t = ''open'') (tasks ex_db) = Some ex_task
   \<and> (\<exists>q s'. submit_quote ex_platform True 2 1 (JInt (- 5)) (JFloat (- 2)) (JString ''555'') ex_db = (Inr q, s')
           \<and> q_charges q = - 5 \<and> q_hours q = - 2 \<and> q \<in> set (quotes s'))"
proof -
  have c: "py_float ex_platform (JInt (- 5)) = Some (- 5)"
    by (simp add: float_of_int_exact)
  have h: "py_float ex_platform (JFloat (- 2)) = Some (- 2)"
    by simp
  have m: "''555'' \<noteq> ([] :: string)"
    by simp
  have i: "sqlite_int 1"
    by (simp add: sqlite_int_def)
  have t: "find (\<lambda>t. t_id t = 1 \<and> t_status t = ''open'') (tasks ex_db) = Some ex_task"
    by (simp add: ex_defs)
  have "\<exists>q s'. submit_quote ex_platform True 2 1 (JInt (- 5)) (JFloat (- 2)) (JString ''555'') ex_db = (Inr q, s')
           \<and> q_charges q = - 5 \<and> q_hours q = - 2 \<and> q \<in> set (quotes s')"
    using submit_quote_no_sign_check [OF c h m i t, of 2] .
  then show ?thesis
    using c h m i t by blast
qed

text \<open>
  The claim as written fails: a quote with charges \<open>-5\<close> and hours \<open>-2\<close> is accepted
  and stored.
\<close>

theorem submit_quote_negative_counterexample:
  "submit_quote ex_platform True 2 1 (JInt (- 5)) (JInt (- 2)) (JString ''555'') ex_db
     = (Inr ex_quote_negative, ex_db\<lparr>quotes := [ex_quote_negative]\<rparr>)
   \<and> q_charges ex_quote_negative < 0 \<and> q_hours ex_quote_negative < 0"
  by (simp add: submit_quote_def float_of_int_exact sqlite_int_def next_id_def Let_def ex_defs)

section \<open>CompleteTask\<close>

text \<open>
  For a \<open>task_id\<close> that SQLite can hold, \<open>complete_task\<close> answers 404 (task not found)
  when no task has the id; 403 when the actor is neither the task's helper nor its
  poster; otherwise, whatever the status of the task was, it answers the task with
  status completed, and the stored task differs from the one before in its status only
  (every other task, and every other table, is as before). For every other \<open>task_id\<close>
  the lookup raises and the answer is 500.
\<close>

lemma complete_task_cases:
  "(\<not> sqlite_int task_id
      \<longrightarrow> complete_task commit_ok u task_id s = (Inl InternalServerError, s))
   \<and> (sqlite_int task_id \<and> find (\<lambda>x. t_id x = task_id) (tasks s) = None
      \<longrightarrow> complete_task commit_ok u task_id s = (Inl TaskNotFound, s))
   \<and> (sqlite_int task_id \<and> find (\<lambda>x. t_id x = task_id) (tasks s) = Some t
        \<and> Some u \<noteq> t_helper_id t \<and> u \<noteq> t_poster_id t
      \<longrightarrow> complete_task commit_ok u task_id s = (Inl NotAuthorizedToComplete, s))
   \<and> (sqlite_int task_id \<and> find (\<lambda>x. t_id x = task_id) (tasks s) = Some t
        \<and> (Some u = t_helper_id t \<or> u = t_poster_id t)
      \<longrightarrow> complete_task True u task_id s
            = (Inr (t\<lparr>t_status := ''completed''\<rparr>),
               s\<lparr>tasks := map (\<lambda>x. if t_id x = task_id then x\<lparr>t_status := ''completed''\<rparr> else x)
                                (tasks s)\<rparr>))"
  by (auto simp: complete_task_def update_task_def)

text \<open>
  C6. The claim holds but for the ids beyond 64 bits, where the code misses it: no
  task has the id \<open>2 ^ 63\<close>, and the answer is not 404 (task not found) but 500.
\<close>

theorem complete_task_overflow:
  "complete_task True 1 (2 ^ 63) ex_db = (Inl InternalServerError, ex_db)
   \<and> map t_id (tasks ex_db) = [1]
   \<and> status_code InternalServerError = 500 \<and> status_code TaskNotFound = 404"
  by (simp add: complete_task_def sqlite_int_def ex_defs)

section \<open>SubmitRating\<close>




section \<open>DeleteTask\<close>

text \<open>
  For a \<open>task_id\<close> that SQLite can hold, \<open>delete_task\<close> answers 404 when the actor owns no
  task with the id, and 400 when the task is not open; in both cases nothing changes.
  On an open task of the actor it either fails as a whole (500, the database as before)
  or succeeds, and then no task, no quote and no rating with the task's id is left,
  every other row of the three tables is kept, and users and notifications are as
  before. It never answers success in another case, and it never leaves a state between
  the two. For every other \<open>task_id\<close> the lookup raises inside the \<^verbatim>\<open>try\<close> and the
  answer is 500.
\<close>

lemma delete_task_cases:
  "(\<not> sqlite_int task_id
      \<longrightarrow> delete_task storage_ok u task_id s = (Inl FailedToDeleteTask, s))
   \<and> (sqlite_int task_id
        \<and> find (\<lambda>x. t_id x = task_id \<and> t_poster_id x = u) (tasks s) = None
      \<longrightarrow> delete_task storage_ok u task_id s = (Inl TaskNotFoundOrNotOwned, s))
   \<and> (sqlite_int task_id
        \<and> find (\<lambda>x. t_id x = task_id \<and> t_poster_id x = u) (tasks s) = Some t \<and> t_status t \<noteq> ''open''
      \<longrightarrow> delete_task storage_ok u task_id s = (Inl OnlyOpenTasksDeleted, s))
   \<and> (sqlite_int task_id
        \<and> find (\<lambda>x. t_id x = task_id \<and> t_poster_id x = u) (tasks s) = Some t \<and> t_status t = ''open''
      \<longrightarrow> delete_task False u task_id s = (Inl FailedToDeleteTask, s)
        \<and> delete_task True u task_id s
            = (Inr (), s\<lparr> quotes := filter (\<lambda>q. q_task_id q \<noteq> task_id) (quotes s),
                          ratings := filter (\<lambda>r. r_task_id r \<noteq> task_id) (ratings s),
                          tasks := filter (\<lambda>x. t_id x \<noteq> task_id) (tasks s) \<rparr>)
        \<and> filter (\<lambda>q. q_task_id q = task_id) (quotes (snd (delete_task True u task_id s))) = []
        \<and> filter (\<lambda>r. r_task_id r = task_id) (ratings (snd (delete_task True u task_id s))) = []
        \<and> filter (\<lambda>x. t_id x = task_id) (tasks (snd (delete_task True u task_id s))) = [])
   \<and> (delete_task storage_ok u task_id s = (Inr (), s')
      \<longrightarrow> storage_ok
        \<and> (\<exists>x \<in> set (tasks s). t_id x = task_id \<and> t_poster_id x = u \<and> t_status x = ''open''))
   \<and> (snd (delete_task storage_ok u task_id s) = s
        \<or> snd (delete_task storage_ok u task_id s)
            = s\<lparr> quotes := filter (\<lambda>q. q_task_id q \<noteq> task_id) (quotes s),
                  ratings := filter (\<lambda>r. r_task_id r \<noteq> task_id) (ratings s),
                  tasks := filter (\<lambda>x. t_id x \<noteq> task_id) (tasks s) \<rparr>)"
proof -
  have tid: "t_id x = task_id \<and> t_poster_id x = u \<and> x \<in> set (tasks s)"
    if "find (\<lambda>x. t_id x = task_id \<and> t_poster_id x = u) (tasks s) = Some x" for x
    using find_SomeD [OF that] by simp
  have o: "\<not> sqlite_int task_id
      \<longrightarrow> delete_task storage_ok u task_id s = (Inl FailedToDeleteTask, s)"
    by (simp add: delete_task_def)
  have a: "sqlite_int task_id
        \<and> find (\<lambda>x. t_id x = task_id \<and> t_poster_id x = u) (tasks s) = None
      \<longrightarrow> delete_task storage_ok u task_id s = (Inl TaskNotFoundOrNotOwned, s)"
    by (simp add: delete_task_def)
  have b: "sqlite_int task_id
        \<and> find (\<lambda>x. t_id x = task_id \<and> t_poster_id x = u) (tasks s) = Some t \<and> t_status t \<noteq> ''open''
      \<longrightarrow> delete_task storage_ok u task_id s = (Inl OnlyOpenTasksDeleted, s)"
    by (simp add: delete_task_def)
  have c: "sqlite_int task_id
        \<and> find (\<lambda>x. t_id x = task_id \<and> t_poster_id x = u) (tasks s) = Some t \<and> t_status t = ''open''
      \<longrightarrow> delete_task False u task_id s = (Inl FailedToDeleteTask, s)
        \<and> delete_task True u task_id s
            = (Inr (), s\<lparr> quotes := filter (\<lambda>q. q_task_id q \<noteq> task_id) (quotes s),
                          ratings := filter (\<lambda>r. r_task_id r \<noteq> task_id) (ratings s),
                          tasks := filter (\<lambda>x. t_id x \<noteq> task_id) (tasks s) \<rparr>)
        \<and> filter (\<lambda>q. q_task_id q = task_id) (quotes (snd (delete_task True u task_id s))) = []
        \<and> filter (\<lambda>r. r_task_id r = task_id) (ratings (snd (delete_task True u task_id s))) = []
        \<and> filter (\<lambda>x. t_id x = task_id) (tasks (snd (delete_task True u task_id s))) = []"
    using tid [of t] by (auto simp: delete_task_def filter_empty_conv)
  have d: "delete_task storage_ok u task_id s = (Inr (), s')
      \<longrightarrow> storage_ok
        \<and> (\<exists>x \<in> set (tasks s). t_id x = task_id \<and> t_poster_id x = u \<and> t_status x = ''open'')"
    by (auto simp: delete_task_def split: option.splits if_splits dest!: find_SomeD)
  have e: "snd (delete_task storage_ok u task_id s) = s
        \<or> snd (delete_task storage_ok u task_id s)
            = s\<lparr> quotes := filter (\<lambda>q. q_task_id q \<noteq> task_id) (quotes s),
                  ratings := filter (\<lambda>r. r_task_id r \<noteq> task_id) (ratings s),
                  tasks := filter (\<lambda>x. t_id x \<noteq> task_id) (tasks s) \<rparr>"
    by (auto simp: delete_task_def split: option.splits if_splits dest!: find_SomeD)
  show ?thesis
    by (intro conjI; (rule o a b c d e))
qed

text \<open>
  C9. The claim holds but for the ids beyond 64 bits, where the code misses it: the
  actor owns no task with the id \<open>2 ^ 63\<close>, and the answer is not 404 but the 500 of
  the handler's \<^verbatim>\<open>except\<close> branch. Nothing is deleted.
\<close>

theorem delete_task_overflow:
  "delete_task True 1 (2 ^ 63) ex_db_quoted = (Inl FailedToDeleteTask, ex_db_quoted)
   \<and> map t_id (tasks ex_db_quoted) = [1]
   \<and> status_code FailedToDeleteTask = 500 \<and> status_code TaskNotFoundOrNotOwned = 404"
  by (simp add: delete_task_def sqlite_int_def ex_defs)

section \<open>The poster as helper of the own task\<close>

text \<open>
  C10. \<open>submit_quote\<close> does not compare the caller with the task's poster: on an open
  task the poster \<open>p\<close>, with charges and hours that \<^verbatim>\<open>float\<close> converts and a non-empty
  mobile, gets a pending quote with helper \<open>p\<close>; and \<open>accept_quote\<close> by \<open>p\<close> on that quote
  succeeds, after which the stored quote is accepted and the task has poster \<open>p\<close> and
  helper \<open>p\<close>.
\<close>

theorem poster_accepts_own_quote:
  assumes task: "find (\<lambda>x. t_id x = task_id) (tasks s) = Some t"
    and "open": "t_status t = ''open''"
    and poster: "t_poster_id t = p"
    and range: "sqlite_int task_id"
    and charges: "py_float pf charges = Some c"
    and hours: "py_float pf hours = Some h"
    and mobile: "m \<noteq> []"
  shows "\<exists>q s1 t' q' s2.
           submit_quote pf True p task_id charges hours (JString m) s = (Inr q, s1)
         \<and> q \<in> set (quotes s1) \<and> q_task_id q = task_id \<and> q_helper_id q = p
         \<and> q_status q = ''pending''
         \<and> accept_quote True True p (q_id q) s1 = (Inr (t', q'), s2)
         \<and> q' = q\<lparr>q_status := ''accepted''\<rparr>
         \<and> find (\<lambda>x. q_id x = q_id q) (quotes s2) = Some q'
         \<and> t_id t' = task_id \<and> t_status t' = ''accepted''
         \<and> t_poster_id t' = p \<and> t_helper_id t' = Some p
         \<and> find (\<lambda>x. t_id x = task_id) (tasks s2) = Some t'"
proof -
  define q where "q = \<lparr> q_id = next_id (map q_id (quotes s)), q_task_id = task_id, q_helper_id = p,
                     q_charges = c, q_hours = h, q_mobile = m, q_status = ''pending'' \<rparr>"
  define kept where "kept = (case find (\<lambda>q. q_task_id q = task_id \<and> q_helper_id q = p) (quotes s) of
                              None \<Rightarrow> quotes s
                            | Some e \<Rightarrow> filter (\<lambda>q. q_id q \<noteq> q_id e) (quotes s))"
  define s1 where "s1 = s\<lparr>quotes := kept @ [q]\<rparr>"
  define g where "g = (\<lambda>x::task. x\<lparr> t_helper_id := Some p, t_charges := Some c,
                            t_hours := Some h, t_status := ''accepted'' \<rparr>)"
  define others where "others = filter (\<lambda>x. q_task_id x = t_id t \<and> q_id x \<noteq> q_id q) (quotes s1)"
  define f where "f = (\<lambda>x::quote. if q_id x = q_id q then x\<lparr>q_status := ''accepted''\<rparr> else x)
                        \<circ> (\<lambda>x. if q_id x \<in> q_id ` set others then x\<lparr>q_status := ''declined''\<rparr> else x)"
  have tid: "t_id t = task_id"
    using find_SomeD [OF task] by simp
  have topen: "find (\<lambda>x. t_id x = task_id \<and> t_status x = ''open'') (tasks s) = Some t"
    using find_conj [OF task, of "\<lambda>x. t_status x = ''open''"] "open" by simp
  have sub: "submit_quote pf True p task_id charges hours (JString m) s = (Inr q, s1)"
    using submit_quote_success [OF charges hours mobile range topen, of p]
    by (simp add: q_def s1_def kept_def)
  have fresh: "\<not> (q_id x = q_id q)" if "x \<in> set kept" for x
  proof -
    have "x \<in> set (quotes s)"
      using that kept_subset [where P = "\<lambda>q. q_task_id q = task_id \<and> q_helper_id q = p" and qs = "quotes s"]
      by (auto simp: kept_def)
    then have "q_id x < next_id (map q_id (quotes s))"
      by (intro next_id_fresh) simp
    then show ?thesis by (simp add: q_def)
  qed
  have fq: "find (\<lambda>x. q_id x = q_id q) (quotes s1) = Some q"
    unfolding s1_def using find_append_last [of kept "\<lambda>x. q_id x = q_id q" q] fresh by simp
  have ft: "find (\<lambda>x. t_id x = q_task_id q) (tasks s1) = Some t"
    using task by (simp add: s1_def q_def)
  obtain s2 where acc: "accept_quote True True p (q_id q) s1
           = (Inr (t\<lparr> t_helper_id := Some (q_helper_id q), t_charges := Some (q_charges q),
                      t_hours := Some (q_hours q), t_status := ''accepted'' \<rparr>,
                   q\<lparr>q_status := ''accepted''\<rparr>), s2)"
     and s2: "tasks s2 = map (\<lambda>x. if t_id x = t_id t then g x else x) (tasks s1)"
     and qs2: "quotes s2 = map f (quotes s1)"
    using accept_quote_ok [OF fq ft poster]
    by (simp add: create_notification_def update_task_def update_quote_def g_def q_def
          decline_others_quotes f_def others_def)
  have "find (\<lambda>x. t_id x = task_id) (map (\<lambda>x. if t_id x = task_id then g x else x) (tasks s)) = Some (g t)"
    by (rule find_map_update) (use task in \<open>simp_all add: g_def\<close>)
  then have ft2: "find (\<lambda>x. t_id x = task_id) (tasks s2) = Some (g t)"
    by (simp add: s2 tid s1_def)
  have fid: "q_id (f x) = q_id x" for x
    by (simp add: f_def)
  have "q_id q \<notin> q_id ` set others"
    by (auto simp: others_def)
  then have fq': "f q = q\<lparr>q_status := ''accepted''\<rparr>"
    by (simp add: f_def)
  have "find (\<lambda>x. q_id x = q_id q) (map f kept @ [f q]) = Some (f q)"
    by (rule find_append_last) (use fresh fid in auto)
  then have stored: "find (\<lambda>x. q_id x = q_id q) (quotes s2) = Some (q\<lparr>q_status := ''accepted''\<rparr>)"
    by (simp add: qs2 s1_def fq')
  have gt: "g t = t\<lparr> t_helper_id := Some (q_helper_id q), t_charges := Some (q_charges q),
                      t_hours := Some (q_hours q), t_status := ''accepted'' \<rparr>"
    by (simp add: g_def q_def)
  have props: "q \<in> set (quotes s1)" "q_task_id q = task_id" "q_helper_id q = p" "q_status q = ''pending''"
       "t_id (g t) = task_id" "t_status (g t) = ''accepted''" "t_poster_id (g t) = p"
       "t_helper_id (g t) = Some p"
    using tid poster by (simp_all add: s1_def q_def g_def)
  show ?thesis
    apply (rule exI [of _ q], rule exI [of _ s1], rule exI [of _ "g t"],
           rule exI [of _ "q\<lparr>q_status := ''accepted''\<rparr>"], rule exI [of _ s2])
    using sub acc ft2 stored props unfolding gt [symmetric] by simp
qed

theorem poster_accepts_own_quote_witness:
  "find (\<lambda>x. t_id x = 1) (tasks ex_db) = Some ex_task
   \<and> t_status ex_task = ''open'' \<and> t_poster_id ex_task = 1 \<and> sqlite_int 1
   \<and> py_float ex_platform (JInt 50) = Some 50 \<and> py_float ex_platform (JFloat 2) = Some 2
   \<and> ''555'' \<noteq> ([] :: string)
   \<and> (\<exists>q s1 t' q' s2.
           submit_quote ex_platform True 1 1 (JInt 50) (JFloat 2) (JString ''555'') ex_db = (Inr q, s1)
         \<and> q_helper_id q = 1
         \<and> accept_quote True True 1 (q_id q) s1 = (Inr (t', q'), s2)
         \<and> find (\<lambda>x. q_id x = q_id q) (quotes s2) = Some q' \<and> q_status q' = ''accepted''
         \<and> t_poster_id t' = 1 \<and> t_helper_id t' = Some 1)"
proof -
  have a: "find (\<lambda>x. t_id x = 1) (tasks ex_db) = Some ex_task"
    by (simp add: ex_defs)
  have b: "t_status ex_task = ''open''"
    by (simp add: ex_defs)
  have c: "t_poster_id ex_task = 1"
    by (simp add: ex_defs)
  have r: "sqlite_int 1"
    by (simp add: sqlite_int_def)
  have fc: "py_float ex_platform (JInt 50) = Some 50"
    by (simp add: float_of_int_exact)
  have fh: "py_float ex_platform (JFloat 2) = Some 2"
    by simp
  have d: "''555'' \<noteq> ([] :: string)"
    by simp
  obtain q s1 t' q' s2 where
      "submit_quote ex_platform True 1 1 (JInt 50) (JFloat 2) (JString ''555'') ex_db = (Inr q, s1)"
      "q_helper_id q = 1"
      "accept_quote True True 1 (q_id q) s1 = (Inr (t', q'), s2)"
      "q' = q\<lparr>q_status := ''accepted''\<rparr>"
      "find (\<lambda>x. q_id x = q_id q) (quotes s2) = Some q'"
      "t_poster_id t' = 1" "t_helper_id t' = Some 1"
    using poster_accepts_own_quote [OF a b c r fc fh d] by blast
  then have "\<exists>q s1 t' q' s2.
           submit_quote ex_platform True 1 1 (JInt 50) (JFloat 2) (JString ''555'') ex_db = (Inr q, s1)
         \<and> q_helper_id q = 1
         \<and> accept_quote True True 1 (q_id q) s1 = (Inr (t', q'), s2)
         \<and> find (\<lambda>x. q_id x = q_id q) (quotes s2) = Some q' \<and> q_status q' = ''accepted''
         \<and> t_poster_id t' = 1 \<and> t_helper_id t' = Some 1"
    by auto
  then show ?thesis
    using a b c r fc fh d by blast
qed

end
